theory Spec2Isabelle
  imports Complex_Main "HOL-Library.Sublist"
begin

section \<open>Python values as they travel through the weather server and its client\<close>

text \<open>
  Both programs handle decoded JSON: what \<open>json.loads\<close> and \<open>response.json()\<close> return and
  what the tool arguments hold. A Python \<open>dict\<close> with string keys is an association list
  in insertion order (keys distinct), \<open>None\<close> is \<open>JNull\<close>. Text is kept as its UTF-8 bytes.
  Floats are passed along and printed; the only computation on one is the comparison in
  \<open>min(days, 16)\<close>, so a float is modelled by the real number it denotes.
\<close>

datatype json =
    JNull
  | JBool bool
  | JInt int
  | JFloat real
  | JStr string
  | JArr "json list"
  | JObj "(string \<times> json) list"

text \<open>The exceptions the two programs raise or meet. \<open>KeyError\<close> carries the \<open>repr\<close> of
  the key, the interpreter's own errors carry the value the operation failed on,
  \<open>UnicodeDecodeError\<close> carries the bytes that are not UTF-8, and
  \<open>UpstreamError\<close> is whatever \<open>aiohttp\<close> raises (connection failure, body that is not JSON).
  \<open>JSONDecodeError\<close>, \<open>RecursionError\<close> and \<open>ConnectionError\<close> (the class of
  \<open>ConnectionResetError\<close> and \<open>BrokenPipeError\<close>) carry their message.\<close>

datatype exn =
    ValueError string
  | RuntimeError string
  | KeyError string
  | TypeError json
  | IndexError json
  | AttributeError json
  | UnicodeDecodeError string
  | UpstreamError string
  | JSONDecodeError string
  | RecursionError string
  | ConnectionError string

text \<open>Python truthiness, as used by \<open>if not location\<close> and \<open>if data.get("results")\<close>.\<close>

fun truthy :: "json \<Rightarrow> bool" where
  "truthy JNull = False"
| "truthy (JBool b) = b"
| "truthy (JInt i) = (i \<noteq> 0)"
| "truthy (JFloat x) = (x \<noteq> 0)"
| "truthy (JStr s) = (s \<noteq> [])"
| "truthy (JArr xs) = (xs \<noteq> [])"
| "truthy (JObj kvs) = (kvs \<noteq> [])"

text \<open>\<open>d.get(k, default)\<close> on a dict, and the same call on an arbitrary value (only a dict
  has the method).\<close>

definition dict_get :: "(string \<times> json) list \<Rightarrow> string \<Rightarrow> json \<Rightarrow> json" where
  "dict_get d k dflt = (case map_of d k of None \<Rightarrow> dflt | Some v \<Rightarrow> v)"

definition py_get :: "json \<Rightarrow> string \<Rightarrow> json \<Rightarrow> exn + json" where
  "py_get v k dflt = (case v of JObj d \<Rightarrow> Inr (dict_get d k dflt) | _ \<Rightarrow> Inl (AttributeError v))"

fun sbind :: "'e + 'a \<Rightarrow> ('a \<Rightarrow> 'e + 'b) \<Rightarrow> 'e + 'b" where
  "sbind (Inl e) f = Inl e"
| "sbind (Inr x) f = f x"

text \<open>Decimal digits of an integer, as \<open>str\<close> prints it.\<close>

fun dec :: "nat \<Rightarrow> string" where
  "dec n = (if n < 10 then [char_of (48 + n)] else dec (n div 10) @ [char_of (48 + n mod 10)])"

declare dec.simps [simp del]

definition str_int :: "int \<Rightarrow> string" where
  "str_int i = (if i < 0 then CHR ''-'' # dec (nat (- i)) else dec (nat i))"

definition quote :: "string \<Rightarrow> string" where
  "quote s = [CHR 0x27] @ s @ [CHR 0x27]"

text \<open>The code points of a text held as UTF-8: a new one starts at every byte that is not a
  continuation byte (\<open>10xxxxxx\<close>).\<close>

definition is_cont :: "char \<Rightarrow> bool" where
  "is_cont c = (128 \<le> (of_char c :: nat) \<and> (of_char c :: nat) < 192)"

fun codepoints :: "string \<Rightarrow> string list" where
  "codepoints [] = []"
| "codepoints (c # cs) = (case codepoints cs of
      [] \<Rightarrow> [[c]]
    | p # ps \<Rightarrow> (if is_cont (hd cs) then (c # p) # ps else [c] # p # ps))"

text \<open>Subscripting with a string key, with a non-negative index, and \<open>len\<close>.\<close>

definition getitem :: "json \<Rightarrow> string \<Rightarrow> exn + json" where
  "getitem v k = (case v of
      JObj d \<Rightarrow> (case map_of d k of None \<Rightarrow> Inl (KeyError (quote k)) | Some x \<Rightarrow> Inr x)
    | _ \<Rightarrow> Inl (TypeError v))"

definition getidx :: "json \<Rightarrow> nat \<Rightarrow> exn + json" where
  "getidx v i = (case v of
      JArr xs \<Rightarrow> (if i < length xs then Inr (xs ! i) else Inl (IndexError v))
    | JStr s \<Rightarrow> (if i < length (codepoints s) then Inr (JStr (codepoints s ! i)) else Inl (IndexError v))
    | JObj d \<Rightarrow> Inl (KeyError (dec i))
    | _ \<Rightarrow> Inl (TypeError v))"

definition py_len :: "json \<Rightarrow> exn + nat" where
  "py_len v = (case v of
      JArr xs \<Rightarrow> Inr (length xs)
    | JStr s \<Rightarrow> Inr (length (codepoints s))
    | JObj d \<Rightarrow> Inr (length d)
    | _ \<Rightarrow> Inl (TypeError v))"

text \<open>What the interpreter and its library supply and the repository does not define:
  \<open>repr_of\<close> is \<open>str\<close> of a float, list or dict; \<open>interp_msg\<close> the wording of the
  interpreter's own \<open>TypeError\<close>, \<open>IndexError\<close>, \<open>AttributeError\<close> and
  \<open>UnicodeDecodeError\<close>; \<open>json_dumps\<close> is \<open>json.dumps\<close>, giving the text or the exception
  it raises (\<open>RecursionError\<close> for deep nesting, \<open>ValueError\<close> for an integer beyond the
  digit limit); \<open>json_loads\<close> is \<open>json.loads\<close>, giving the decoded value or the exception
  it raises (\<open>JSONDecodeError\<close> for a malformed text, and again \<open>RecursionError\<close> or
  \<open>ValueError\<close>); \<open>repr_bytes\<close> is how an f-string prints a \<open>bytes\<close> object.\<close>

record py_runtime =
  repr_of :: "json \<Rightarrow> string"
  interp_msg :: "exn \<Rightarrow> string"
  json_dumps :: "json \<Rightarrow> exn + string"
  json_loads :: "string \<Rightarrow> exn + json"
  repr_bytes :: "string \<Rightarrow> string"

definition py_str :: "py_runtime \<Rightarrow> json \<Rightarrow> string" where
  "py_str rt v = (case v of
      JStr s \<Rightarrow> s
    | JNull \<Rightarrow> ''None''
    | JBool b \<Rightarrow> (if b then ''True'' else ''False'')
    | JInt i \<Rightarrow> str_int i
    | _ \<Rightarrow> repr_of rt v)"

definition str_exn :: "py_runtime \<Rightarrow> exn \<Rightarrow> string" where
  "str_exn rt e = (case e of
      ValueError m \<Rightarrow> m
    | RuntimeError m \<Rightarrow> m
    | KeyError k \<Rightarrow> k
    | UpstreamError m \<Rightarrow> m
    | JSONDecodeError m \<Rightarrow> m
    | RecursionError m \<Rightarrow> m
    | ConnectionError m \<Rightarrow> m
    | _ \<Rightarrow> interp_msg rt e)"

section \<open>The weather service (\<open>weather.py\<close>, class \<open>WeatherService\<close>)\<close>

text \<open>One HTTP GET: the URL and the query parameters. The upstream (the \<open>aiohttp\<close> session,
  the network and Open-Meteo) answers a request either by raising or with a status and what
  \<open>response.json()\<close> gives, itself an exception or the decoded body. Every service function
  returns its outcome together with the requests it made, in order.\<close>

record request =
  url :: string
  params :: "(string \<times> json) list"

datatype http_reply = Failed string | Reply int "string + json"

type_synonym upstream = "request \<Rightarrow> http_reply"

definition BASE_URL :: string where
  "BASE_URL = ''https://api.open-meteo.com/v1/forecast''"

definition GEOCODING_URL :: string where
  "GEOCODING_URL = ''https://geocoding-api.open-meteo.com/v1/search''"

definition not_found :: "py_runtime \<Rightarrow> json \<Rightarrow> exn" where
  "not_found rt location = ValueError (''Location '' @ quote (py_str rt location) @ '' not found'')"

definition first_result :: "json \<Rightarrow> json \<Rightarrow> exn + (string \<times> json) list" where
  "first_result data location =
     sbind (getitem data ''results'') (\<lambda>rs.
     sbind (getidx rs 0) (\<lambda>result.
     sbind (getitem result ''latitude'') (\<lambda>lat.
     sbind (getitem result ''longitude'') (\<lambda>lon.
     sbind (py_get result ''name'' location) (\<lambda>nm.
     sbind (py_get result ''country'' (JStr [])) (\<lambda>co.
       Inr [(''latitude'', lat), (''longitude'', lon), (''name'', nm), (''country'', co)]))))))"

definition geocoding_request :: "json \<Rightarrow> request" where
  "geocoding_request location =
     \<lparr>url = GEOCODING_URL,
      params = [(''name'', location), (''count'', JInt 1),
                (''language'', JStr ''en''), (''format'', JStr ''json'')]\<rparr>"

definition get_coordinates ::
  "py_runtime \<Rightarrow> upstream \<Rightarrow> json \<Rightarrow> (exn + (string \<times> json) list) \<times> request list" where
  "get_coordinates rt up location =
     (let req = geocoding_request location
      in (case up req of
            Failed m \<Rightarrow> Inl (UpstreamError m)
          | Reply status body \<Rightarrow>
              (if status = 200 then
                 (case body of
                    Inl m \<Rightarrow> Inl (UpstreamError m)
                  | Inr data \<Rightarrow>
                      sbind (py_get data ''results'' JNull) (\<lambda>res.
                        if truthy res then first_result data location
                        else Inl (not_found rt location)))
               else Inl (not_found rt location)),
          [req]))"

definition current_fields :: string where
  "current_fields = ''temperature_2m,relative_humidity_2m,apparent_temperature,is_day,precipitation,rain,showers,snowfall,weather_code,cloud_cover,pressure_msl,surface_pressure,wind_speed_10m,wind_direction_10m,wind_gusts_10m''"

definition daily_fields :: string where
  "daily_fields = ''weather_code,temperature_2m_max,temperature_2m_min,apparent_temperature_max,apparent_temperature_min,sunrise,sunset,precipitation_sum,rain_sum,showers_sum,snowfall_sum,precipitation_hours,wind_speed_10m_max,wind_gusts_10m_max,wind_direction_10m_dominant''"

text \<open>The shared tail of both fetches: status 200 gives the decoded body, any other status a
  \<open>ValueError\<close> with the given prefix and the status.\<close>

definition fetch :: "upstream \<Rightarrow> request \<Rightarrow> string \<Rightarrow> (exn + json) \<times> request list" where
  "fetch up req what =
     (case up req of
        Failed m \<Rightarrow> Inl (UpstreamError m)
      | Reply status body \<Rightarrow>
          (if status = 200 then (case body of Inl m \<Rightarrow> Inl (UpstreamError m) | Inr data \<Rightarrow> Inr data)
           else Inl (ValueError (what @ str_int status))),
      [req])"

definition get_current_weather :: "upstream \<Rightarrow> json \<Rightarrow> json \<Rightarrow> (exn + json) \<times> request list" where
  "get_current_weather up latitude longitude =
     fetch up \<lparr>url = BASE_URL,
               params = [(''latitude'', latitude), (''longitude'', longitude),
                         (''current'', JStr current_fields), (''timezone'', JStr ''auto'')]\<rparr>
       ''Failed to fetch weather data: ''"

text \<open>\<open>min(days, 16)\<close>: Python returns \<open>days\<close> unless \<open>16 < days\<close>; a \<open>bool\<close> compares as
  0 or 1; comparing \<open>None\<close>, a string, a list or a dict with an int raises \<open>TypeError\<close>.\<close>

definition min_16 :: "json \<Rightarrow> exn + json" where
  "min_16 days = (case days of
      JInt d \<Rightarrow> Inr (JInt (min d 16))
    | JBool b \<Rightarrow> Inr (JBool b)
    | JFloat x \<Rightarrow> Inr (if 16 < x then JInt 16 else JFloat x)
    | _ \<Rightarrow> Inl (TypeError days))"

definition forecast_params :: "json \<Rightarrow> json \<Rightarrow> json \<Rightarrow> exn + (string \<times> json) list" where
  "forecast_params latitude longitude days =
     sbind (min_16 days) (\<lambda>n.
       Inr [(''latitude'', latitude), (''longitude'', longitude),
            (''daily'', JStr daily_fields), (''timezone'', JStr ''auto''),
            (''forecast_days'', n)])"

definition get_forecast :: "upstream \<Rightarrow> json \<Rightarrow> json \<Rightarrow> json \<Rightarrow> (exn + json) \<times> request list" where
  "get_forecast up latitude longitude days =
     (case forecast_params latitude longitude days of
        Inl e \<Rightarrow> (Inl e, [])
      | Inr ps \<Rightarrow> fetch up \<lparr>url = BASE_URL, params = ps\<rparr> ''Failed to fetch forecast data: '')"

text \<open>The \<open>forecast_days\<close> parameter of each request of a list, as sent.\<close>

definition sent_forecast_days :: "request list \<Rightarrow> json option list" where
  "sent_forecast_days calls = map (\<lambda>r. map_of (params r) ''forecast_days'') calls"

section \<open>The tools (\<open>handle_list_tools\<close>, \<open>handle_call_tool\<close>)\<close>

record Tool =
  name :: string
  description :: string
  inputSchema :: json

record TextContent =
  type :: string
  "text" :: string

definition location_schema :: "string \<Rightarrow> string \<times> json" where
  "location_schema d = (''location'', JObj [(''type'', JStr ''string''), (''description'', JStr d)])"

definition city_hint :: string where
  "city_hint = ''City name, e.g., '' @ quote ''Bangkok, Thailand'' @ '' or '' @ quote ''New York''"

definition handle_list_tools :: "Tool list" where
  "handle_list_tools =
    [\<lparr>name = ''get_current_weather'',
      description = ''Get current weather conditions for a location'',
      inputSchema = JObj
        [(''type'', JStr ''object''),
         (''properties'', JObj [location_schema city_hint]),
         (''required'', JArr [JStr ''location''])]\<rparr>,
     \<lparr>name = ''get_weather_forecast'',
      description = ''Get weather forecast for a location'',
      inputSchema = JObj
        [(''type'', JStr ''object''),
         (''properties'', JObj
            [location_schema city_hint,
             (''days'', JObj
                [(''type'', JStr ''integer''),
                 (''description'', JStr ''Number of forecast days (1-16)''),
                 (''default'', JInt 7),
                 (''minimum'', JInt 1),
                 (''maximum'', JInt 16)])]),
         (''required'', JArr [JStr ''location''])]\<rparr>,
     \<lparr>name = ''search_location'',
      description = ''Search for location coordinates'',
      inputSchema = JObj
        [(''type'', JStr ''object''),
         (''properties'', JObj [location_schema ''Location name to search for'']),
         (''required'', JArr [JStr ''location''])]\<rparr>]"

definition text_item :: "string \<Rightarrow> TextContent" where
  "text_item t = \<lparr>type = ''text'', text = t\<rparr>"

text \<open>Sequencing of steps that may raise and may call upstream: the first exception ends the
  sequence, the requests made so far are kept.\<close>

definition then_io ::
  "(exn + 'a) \<times> request list \<Rightarrow> ('a \<Rightarrow> (exn + 'b) \<times> request list) \<Rightarrow> (exn + 'b) \<times> request list" where
  "then_io m f = (case m of
      (Inl e, calls) \<Rightarrow> (Inl e, calls)
    | (Inr x, calls) \<Rightarrow> (case f x of (r, calls') \<Rightarrow> (r, calls @ calls')))"

definition lift :: "exn + 'a \<Rightarrow> (exn + 'a) \<times> request list" where
  "lift r = (r, [])"

definition nl :: string where
  "nl = [CHR 0x0A]"

text \<open>The non-ASCII runs of the source's format strings, byte for byte.\<close>

definition degree_mark :: string where
  "degree_mark = [CHR 0xC2, CHR 0xAC, CHR 0xE2, CHR 0x88, CHR 0x9E]"

definition calendar_mark :: string where
  "calendar_mark = [CHR 0xEF, CHR 0xA3, CHR 0xBF, CHR 0xC3, CHR 0xBC, CHR 0xC3, CHR 0xAC, CHR 0xC3, CHR 0x96]"

definition thermometer_mark :: string where
  "thermometer_mark = [CHR 0xEF, CHR 0xA3, CHR 0xBF, CHR 0xC3, CHR 0xBC, CHR 0xC3, CHR 0xA5, CHR 0xC2, CHR 0xB0,
                       CHR 0xC3, CHR 0x94, CHR 0xE2, CHR 0x88, CHR 0x8F, CHR 0xC3, CHR 0xA8]"

definition rain_mark :: string where
  "rain_mark = [CHR 0xEF, CHR 0xA3, CHR 0xBF, CHR 0xC3, CHR 0xBC, CHR 0xC3, CHR 0xA5, CHR 0xC3, CHR 0x9F,
                CHR 0xC3, CHR 0x94, CHR 0xE2, CHR 0x88, CHR 0x8F, CHR 0xC3, CHR 0xA8]"

definition wind_mark :: string where
  "wind_mark = [CHR 0xEF, CHR 0xA3, CHR 0xBF, CHR 0xC3, CHR 0xBC, CHR 0xC3, CHR 0xAD, CHR 0xC2, CHR 0xAE]"

text \<open>\<open>f"{vals[k]}{units[k]}"\<close>.\<close>

definition unit_pair :: "py_runtime \<Rightarrow> json \<Rightarrow> json \<Rightarrow> string \<Rightarrow> exn + string" where
  "unit_pair rt vals units k =
     sbind (getitem vals k) (\<lambda>v. sbind (getitem units k) (\<lambda>u. Inr (py_str rt v @ py_str rt u)))"

definition current_weather_text :: "py_runtime \<Rightarrow> (string \<times> json) list \<Rightarrow> json \<Rightarrow> exn + string" where
  "current_weather_text rt coords weather_data =
     sbind (getitem weather_data ''current'') (\<lambda>current.
     sbind (getitem weather_data ''current_units'') (\<lambda>current_units.
     sbind (getitem (JObj coords) ''name'') (\<lambda>nm.
     sbind (getitem (JObj coords) ''country'') (\<lambda>co.
     sbind (getitem (JObj coords) ''latitude'') (\<lambda>lat.
     sbind (getitem (JObj coords) ''longitude'') (\<lambda>lon.
     sbind (getitem current ''time'') (\<lambda>tm.
     sbind (unit_pair rt current current_units ''temperature_2m'') (\<lambda>temperature.
     sbind (unit_pair rt current current_units ''apparent_temperature'') (\<lambda>feels_like.
     sbind (unit_pair rt current current_units ''relative_humidity_2m'') (\<lambda>humidity.
     sbind (unit_pair rt current current_units ''precipitation'') (\<lambda>precipitation.
     sbind (unit_pair rt current current_units ''wind_speed_10m'') (\<lambda>wind_speed.
     sbind (unit_pair rt current current_units ''wind_direction_10m'') (\<lambda>wind_direction.
     sbind (unit_pair rt current current_units ''pressure_msl'') (\<lambda>pressure.
     sbind (unit_pair rt current current_units ''cloud_cover'') (\<lambda>cloud_cover.
     sbind (getitem current ''is_day'') (\<lambda>d.
       Inr (''Current weather for '' @ py_str rt nm @ '', '' @ py_str rt co @ '':'' @ nl @
            ''Temperature: '' @ temperature @ '' (feels like '' @ feels_like @ '')'' @ nl @
            ''Humidity: '' @ humidity @ nl @
            ''Wind: '' @ wind_speed @ '' at '' @ wind_direction @ degree_mark @ nl @
            ''Pressure: '' @ pressure @ nl @
            ''Cloud Cover: '' @ cloud_cover @ nl @
            ''Precipitation: '' @ precipitation @ nl @
            ''Time of Day: '' @ (if truthy d then ''Day'' else ''Night'') @ nl @ nl @
            ''Data from Open-Meteo API'')))))))))))))))))"

definition item_at :: "json \<Rightarrow> string \<Rightarrow> nat \<Rightarrow> exn + json" where
  "item_at daily k i = sbind (getitem daily k) (\<lambda>xs. getidx xs i)"

text \<open>What one pass of the loop over the days appends.\<close>

definition forecast_day :: "py_runtime \<Rightarrow> json \<Rightarrow> json \<Rightarrow> nat \<Rightarrow> exn + string" where
  "forecast_day rt daily daily_units i =
     sbind (item_at daily ''time'' i) (\<lambda>date.
     sbind (item_at daily ''temperature_2m_max'' i) (\<lambda>max_temp.
     sbind (item_at daily ''temperature_2m_min'' i) (\<lambda>min_temp.
     sbind (item_at daily ''precipitation_sum'' i) (\<lambda>precipitation.
     sbind (item_at daily ''wind_speed_10m_max'' i) (\<lambda>wind_speed.
     sbind (getitem daily_units ''temperature_2m_max'') (\<lambda>u_max.
     sbind (getitem daily_units ''temperature_2m_min'') (\<lambda>u_min.
     sbind (getitem daily_units ''precipitation_sum'') (\<lambda>u_prec.
     sbind (getitem daily_units ''wind_speed_10m_max'') (\<lambda>u_wind.
       Inr (calendar_mark @ '' '' @ py_str rt date @ '':'' @ nl @
            ''  '' @ thermometer_mark @ ''  High: '' @ py_str rt max_temp @ py_str rt u_max @
              '', Low: '' @ py_str rt min_temp @ py_str rt u_min @ nl @
            ''  '' @ rain_mark @ ''  Precipitation: '' @ py_str rt precipitation @ py_str rt u_prec @ nl @
            ''  '' @ wind_mark @ '' Max Wind: '' @ py_str rt wind_speed @ py_str rt u_wind @ nl @ nl))))))))))"

fun forecast_loop :: "py_runtime \<Rightarrow> json \<Rightarrow> json \<Rightarrow> nat list \<Rightarrow> string \<Rightarrow> exn + string" where
  "forecast_loop rt daily daily_units [] forecast_text = Inr forecast_text"
| "forecast_loop rt daily daily_units (i # rest) forecast_text =
     sbind (forecast_day rt daily daily_units i) (\<lambda>t.
       forecast_loop rt daily daily_units rest (forecast_text @ t))"

definition forecast_text :: "py_runtime \<Rightarrow> (string \<times> json) list \<Rightarrow> json \<Rightarrow> json \<Rightarrow> exn + string" where
  "forecast_text rt coords forecast_data days =
     sbind (getitem forecast_data ''daily'') (\<lambda>daily.
     sbind (getitem forecast_data ''daily_units'') (\<lambda>daily_units.
     sbind (getitem (JObj coords) ''name'') (\<lambda>nm.
     sbind (getitem (JObj coords) ''country'') (\<lambda>co.
     sbind (getitem daily ''time'') (\<lambda>tm.
     sbind (py_len tm) (\<lambda>n.
     sbind (forecast_loop rt daily daily_units [0..<n]
              (''Weather forecast for '' @ py_str rt nm @ '', '' @ py_str rt co @
               '' ('' @ py_str rt days @ '' days):'' @ nl @ nl)) (\<lambda>body.
       Inr (body @ ''Data from Open-Meteo API''))))))))"

definition search_text :: "py_runtime \<Rightarrow> (string \<times> json) list \<Rightarrow> exn + string" where
  "search_text rt coords =
     sbind (getitem (JObj coords) ''name'') (\<lambda>nm.
     sbind (getitem (JObj coords) ''country'') (\<lambda>co.
     sbind (getitem (JObj coords) ''latitude'') (\<lambda>lat.
     sbind (getitem (JObj coords) ''longitude'') (\<lambda>lon.
       Inr (''Location: '' @ py_str rt nm @ '', '' @ py_str rt co @ nl @
            ''Coordinates: '' @ py_str rt lat @ '', '' @ py_str rt lon)))))"

text \<open>The \<open>try\<close> blocks: every exception becomes the text after the given prefix.\<close>

definition caught :: "py_runtime \<Rightarrow> string \<Rightarrow> (exn + string) \<times> request list \<Rightarrow> TextContent list \<times> request list" where
  "caught rt what body = (case body of
      (Inl e, calls) \<Rightarrow> ([text_item (what @ str_exn rt e)], calls)
    | (Inr t, calls) \<Rightarrow> ([text_item t], calls))"

definition handle_call_tool ::
  "py_runtime \<Rightarrow> upstream \<Rightarrow> string \<Rightarrow> (string \<times> json) list \<Rightarrow> TextContent list \<times> request list" where
  "handle_call_tool rt up tool_name arguments =
    (if tool_name = ''get_current_weather'' then
       (let location = dict_get arguments ''location'' JNull in
        if \<not> truthy location then ([text_item ''Error: Location is required''], [])
        else caught rt ''Error getting weather: ''
          (then_io (get_coordinates rt up location) (\<lambda>coords.
           then_io (lift (getitem (JObj coords) ''latitude'')) (\<lambda>lat.
           then_io (lift (getitem (JObj coords) ''longitude'')) (\<lambda>lon.
           then_io (get_current_weather up lat lon) (\<lambda>weather_data.
           lift (current_weather_text rt coords weather_data)))))))
     else if tool_name = ''get_weather_forecast'' then
       (let location = dict_get arguments ''location'' JNull;
            days = dict_get arguments ''days'' (JInt 7) in
        if \<not> truthy location then ([text_item ''Error: Location is required''], [])
        else caught rt ''Error getting forecast: ''
          (then_io (get_coordinates rt up location) (\<lambda>coords.
           then_io (lift (getitem (JObj coords) ''latitude'')) (\<lambda>lat.
           then_io (lift (getitem (JObj coords) ''longitude'')) (\<lambda>lon.
           then_io (get_forecast up lat lon days) (\<lambda>forecast_data.
           lift (forecast_text rt coords forecast_data days)))))))
     else if tool_name = ''search_location'' then
       (let location = dict_get arguments ''location'' JNull in
        if \<not> truthy location then ([text_item ''Error: Location is required''], [])
        else caught rt ''Error searching location: ''
          (then_io (get_coordinates rt up location) (\<lambda>coords.
           lift (search_text rt coords))))
     else ([text_item (''Unknown tool: '' @ tool_name)], []))"

section \<open>The client (\<open>client.py\<close>, class \<open>MCPClient\<close>)\<close>

text \<open>The child process as the client sees it. \<open>stdin\<close> holds the chunks written to its
  standard input. \<open>drains\<close> says what the successive calls of \<open>drain()\<close> will do: return
  (\<open>None\<close>) or raise, as they do once the pipe is broken (none left: they return).
  \<open>stdout\<close> holds the bytes its standard output will still deliver; the child is taken to
  close its output after them, so that a read never waits for ever. \<open>arrivals\<close> says, for
  each read that meets a line beyond the reader's limit, how many of the pending bytes had
  arrived when the reader looked (none left: all of them).\<close>

record process =
  stdin :: "string list"
  drains :: "exn option list"
  stdout :: string
  arrivals :: "nat list"

datatype level = INFO | ERROR

text \<open>A client object has the three attributes set by \<open>__init__\<close>. Client objects live at
  addresses; the module's logger is shared by all of them. The methods \<open>_get_request_id\<close>,
  \<open>_send_request\<close> and \<open>_send_notification\<close> appear without their leading underscore; each
  method takes the world and the address of \<open>self\<close>.\<close>

type_synonym addr = nat

record MCPClient =
  server_path :: string
  process :: "process option"
  request_id :: int

record world =
  clients :: "addr \<Rightarrow> MCPClient"
  logged :: "(level \<times> string) list"

definition set_process :: "world \<Rightarrow> addr \<Rightarrow> process \<Rightarrow> world" where
  "set_process w self p = w\<lparr>clients := (clients w)(self := (clients w self)\<lparr>process := Some p\<rparr>)\<rparr>"

definition log_record :: "world \<Rightarrow> level \<Rightarrow> string \<Rightarrow> world" where
  "log_record w lv msg = w\<lparr>logged := logged w @ [(lv, msg)]\<rparr>"

definition MCPClient_init :: "world \<Rightarrow> addr \<Rightarrow> string \<Rightarrow> world" where
  "MCPClient_init w self path =
     w\<lparr>clients := (clients w)(self := \<lparr>server_path = path, process = None, request_id = 0\<rparr>)\<rparr>"

definition get_request_id :: "world \<Rightarrow> addr \<Rightarrow> int \<times> world" where
  "get_request_id w self =
     (request_id (clients w self) + 1,
      w\<lparr>clients := (clients w)(self := (clients w self)\<lparr>request_id := request_id (clients w self) + 1\<rparr>)\<rparr>)"

subsection \<open>The pipes: \<open>drain\<close> and \<open>readline\<close>\<close>

definition drain :: "process \<Rightarrow> exn option \<times> process" where
  "drain p = (case drains p of [] \<Rightarrow> (None, p) | d # ds \<Rightarrow> (d, p\<lparr>drains := ds\<rparr>))"

text \<open>The stream reader is created with asyncio's default limit, no \<open>limit=\<close> being passed.\<close>

definition DEFAULT_LIMIT :: nat where
  "DEFAULT_LIMIT = 65536"

definition line_body :: "string \<Rightarrow> string" where
  "line_body out = takeWhile (\<lambda>c. c \<noteq> CHR 0x0A) out"

definition split_line :: "string \<Rightarrow> string \<times> string" where
  "split_line out = (case dropWhile (\<lambda>c. c \<noteq> CHR 0x0A) out of
      [] \<Rightarrow> (out, [])
    | n # rest \<Rightarrow> (line_body out @ [n], rest))"

text \<open>\<open>readline\<close> hands over the bytes up to and including the first newline, or all that is
  left when the output ends without one (zero bytes at the end of the output). When more
  than the limit precedes the newline it raises \<open>ValueError\<close> instead: if the newline had
  arrived, the line is dropped; if not, what had arrived is dropped.\<close>

definition readline :: "process \<Rightarrow> (exn + string) \<times> process" where
  "readline p =
     (let out = stdout p in
      if DEFAULT_LIMIT < length (line_body out) then
        (let k = max (DEFAULT_LIMIT + 1) (case arrivals p of [] \<Rightarrow> length out | a # _ \<Rightarrow> a);
             p' = p\<lparr>arrivals := tl (arrivals p)\<rparr> in
         if k \<le> length (line_body out) then
           (Inl (ValueError ''Separator is not found, and chunk exceed the limit''),
            p'\<lparr>stdout := drop k out\<rparr>)
         else (case dropWhile (\<lambda>c. c \<noteq> CHR 0x0A) out of
             [] \<Rightarrow>
               (Inl (ValueError ''Separator is not found, and chunk exceed the limit''),
                p'\<lparr>stdout := []\<rparr>)
           | n # rest \<Rightarrow>
               (Inl (ValueError ''Separator is found, but chunk is longer than limit''),
                p'\<lparr>stdout := rest\<rparr>)))
      else (case split_line out of (line, rest) \<Rightarrow> (Inr line, p\<lparr>stdout := rest\<rparr>)))"

text \<open>Write, drain, read: \<open>write\<close> itself does not raise, a broken pipe shows in \<open>drain\<close>.\<close>

definition exchange :: "process \<Rightarrow> string \<Rightarrow> (exn + string) \<times> process" where
  "exchange p data =
     (case drain (p\<lparr>stdin := stdin p @ [data]\<rparr>) of
        (Some e, p') \<Rightarrow> (Inl e, p')
      | (None, p') \<Rightarrow> readline p')"

subsection \<open>\<open>bytes.decode()\<close> and \<open>str.strip()\<close> on UTF-8\<close>

definition byte_in :: "char \<Rightarrow> nat \<Rightarrow> nat \<Rightarrow> bool" where
  "byte_in c lo hi = (lo \<le> of_char c \<and> (of_char c :: nat) \<le> hi)"

text \<open>Well-formed UTF-8: no overlong form, no surrogate, nothing above U+10FFFF.\<close>

fun utf8_ok :: "string \<Rightarrow> bool" where
  "utf8_ok [] = True"
| "utf8_ok (a # rest) =
     (if byte_in a 0 0x7F then utf8_ok rest
      else if byte_in a 0xC2 0xDF then
        (case rest of b # r \<Rightarrow> is_cont b \<and> utf8_ok r | _ \<Rightarrow> False)
      else if byte_in a 0xE0 0xEF then
        (case rest of
           b # c # r \<Rightarrow>
             (if a = CHR 0xE0 then byte_in b 0xA0 0xBF
              else if a = CHR 0xED then byte_in b 0x80 0x9F
              else is_cont b) \<and> is_cont c \<and> utf8_ok r
         | _ \<Rightarrow> False)
      else if byte_in a 0xF0 0xF4 then
        (case rest of
           b # c # d # r \<Rightarrow>
             (if a = CHR 0xF0 then byte_in b 0x90 0xBF
              else if a = CHR 0xF4 then byte_in b 0x80 0x8F
              else is_cont b) \<and> is_cont c \<and> is_cont d \<and> utf8_ok r
         | _ \<Rightarrow> False)
      else False)"

text \<open>The code points for which \<open>str.isspace()\<close> holds, in UTF-8: U+0009 to U+000D, U+001C to
  U+0020, U+0085, U+00A0, U+1680, U+2000 to U+200A, U+2028, U+2029, U+202F, U+205F, U+3000.\<close>

definition ws_seqs :: "string list" where
  "ws_seqs =
     [[CHR 0x09], [CHR 0x0A], [CHR 0x0B], [CHR 0x0C], [CHR 0x0D], [CHR 0x1C],
      [CHR 0x1D], [CHR 0x1E], [CHR 0x1F], [CHR 0x20], [CHR 0xC2, CHR 0x85], [CHR 0xC2, CHR 0xA0],
      [CHR 0xE1, CHR 0x9A, CHR 0x80], [CHR 0xE2, CHR 0x80, CHR 0x80], [CHR 0xE2, CHR 0x80, CHR 0x81],
      [CHR 0xE2, CHR 0x80, CHR 0x82], [CHR 0xE2, CHR 0x80, CHR 0x83], [CHR 0xE2, CHR 0x80, CHR 0x84],
      [CHR 0xE2, CHR 0x80, CHR 0x85], [CHR 0xE2, CHR 0x80, CHR 0x86], [CHR 0xE2, CHR 0x80, CHR 0x87],
      [CHR 0xE2, CHR 0x80, CHR 0x88], [CHR 0xE2, CHR 0x80, CHR 0x89], [CHR 0xE2, CHR 0x80, CHR 0x8A],
      [CHR 0xE2, CHR 0x80, CHR 0xA8], [CHR 0xE2, CHR 0x80, CHR 0xA9], [CHR 0xE2, CHR 0x80, CHR 0xAF],
      [CHR 0xE2, CHR 0x81, CHR 0x9F], [CHR 0xE3, CHR 0x80, CHR 0x80]]"

text \<open>\<open>strip\<close> removes white space code points from both ends, one at a time.\<close>

function lstrip :: "string \<Rightarrow> string" where
  "lstrip s = (case find (\<lambda>w. prefix w s) ws_seqs of
      None \<Rightarrow> s
    | Some w \<Rightarrow> lstrip (drop (length w) s))"
  by pat_completeness auto
termination
proof (relation "measure length")
  show "wf (measure length)" by simp
next
  fix s w
  assume "find (\<lambda>w. prefix w s) ws_seqs = Some w"
  then have "w \<in> set ws_seqs" and "prefix w s"
    by (auto simp: find_Some_iff)
  moreover have "\<forall>v \<in> set ws_seqs. v \<noteq> []"
    by (simp add: ws_seqs_def)
  ultimately have "w \<noteq> []" and "length w \<le> length s"
    by (auto simp: prefix_length_le)
  then show "(drop (length w) s, s) \<in> measure length"
    by (cases w) auto
qed

function rstrip :: "string \<Rightarrow> string" where
  "rstrip s = (case find (\<lambda>w. suffix w s) ws_seqs of
      None \<Rightarrow> s
    | Some w \<Rightarrow> rstrip (take (length s - length w) s))"
  by pat_completeness auto
termination
proof (relation "measure length")
  show "wf (measure length)" by simp
next
  fix s w
  assume "find (\<lambda>w. suffix w s) ws_seqs = Some w"
  then have "w \<in> set ws_seqs" and "suffix w s"
    by (auto simp: find_Some_iff)
  moreover have "\<forall>v \<in> set ws_seqs. v \<noteq> []"
    by (simp add: ws_seqs_def)
  ultimately have "w \<noteq> []" and "length w \<le> length s"
    by (auto simp: suffix_length_le)
  then show "(take (length s - length w) s, s) \<in> measure length"
    by (cases w) auto
qed

declare lstrip.simps [simp del] rstrip.simps [simp del]

definition strip :: "string \<Rightarrow> string" where
  "strip s = rstrip (lstrip s)"

subsection \<open>Requests, notifications and the exchange\<close>

definition initialize_request :: "int \<Rightarrow> json" where
  "initialize_request rid = JObj
     [(''jsonrpc'', JStr ''2.0''),
      (''id'', JInt rid),
      (''method'', JStr ''initialize''),
      (''params'', JObj
         [(''protocolVersion'', JStr ''2024-11-05''),
          (''capabilities'', JObj [(''tools'', JObj [])]),
          (''clientInfo'', JObj [(''name'', JStr ''weather-client''), (''version'', JStr ''1.0.0'')])])]"

definition initialized_notification :: json where
  "initialized_notification = JObj
     [(''jsonrpc'', JStr ''2.0''), (''method'', JStr ''notifications/initialized'')]"

definition list_tools_request :: "int \<Rightarrow> json" where
  "list_tools_request rid = JObj
     [(''jsonrpc'', JStr ''2.0''), (''id'', JInt rid), (''method'', JStr ''tools/list'')]"

definition call_tool_request :: "int \<Rightarrow> string \<Rightarrow> (string \<times> json) list \<Rightarrow> json" where
  "call_tool_request rid tool_name arguments = JObj
     [(''jsonrpc'', JStr ''2.0''),
      (''id'', JInt rid),
      (''method'', JStr ''tools/call''),
      (''params'', JObj [(''name'', JStr tool_name), (''arguments'', JObj arguments)])]"

text \<open>\<open>json.dumps(message) + "\n"\<close>; the encoder's output is ASCII and is written as it is.\<close>

definition encode_line :: "py_runtime \<Rightarrow> json \<Rightarrow> exn + string" where
  "encode_line rt message = (case json_dumps rt message of
      Inl e \<Rightarrow> Inl e
    | Inr encoded \<Rightarrow> Inr (encoded @ nl))"

text \<open>\<open>json.loads(response_line.decode().strip())\<close> inside the \<open>try\<close>: the outcome is an
  exception that \<open>except json.JSONDecodeError\<close> lets through (from \<open>decode\<close>, or from
  \<open>loads\<close>), or the message of a \<open>JSONDecodeError\<close>, or the decoded value.\<close>

definition loads_line :: "py_runtime \<Rightarrow> string \<Rightarrow> exn + (string + json)" where
  "loads_line rt response_line =
     (if utf8_ok response_line then
        (case json_loads rt (strip response_line) of
           Inl (JSONDecodeError msg) \<Rightarrow> Inr (Inl msg)
         | Inl e \<Rightarrow> Inl e
         | Inr response \<Rightarrow> Inr (Inr response))
      else Inl (UnicodeDecodeError response_line))"

fun is_substr :: "string \<Rightarrow> string \<Rightarrow> bool" where
  "is_substr xs [] = (xs = [])"
| "is_substr xs (y # ys) = (prefix xs (y # ys) \<or> is_substr xs ys)"

text \<open>\<open>"error" in response\<close>: a key of a dict, an element of a list, a substring of a string;
  any other value is not iterable.\<close>

definition has_error :: "json \<Rightarrow> exn + bool" where
  "has_error response = (case response of
      JObj d \<Rightarrow> Inr (map_of d ''error'' \<noteq> None)
    | JArr xs \<Rightarrow> Inr (JStr ''error'' \<in> set xs)
    | JStr s \<Rightarrow> Inr (is_substr ''error'' s)
    | _ \<Rightarrow> Inl (TypeError response))"

text \<open>What the \<open>try\<close> block makes of a line that was read: the outcome, and the records it
  hands to the logger.\<close>

definition response_of :: "py_runtime \<Rightarrow> string \<Rightarrow> (exn + json) \<times> (level \<times> string) list" where
  "response_of rt response_line =
     (case loads_line rt response_line of
        Inl e \<Rightarrow> (Inl e, [])
      | Inr (Inl msg) \<Rightarrow>
          (Inl (RuntimeError (''Invalid server response: '' @ msg)),
           [(ERROR, ''Invalid JSON response: '' @ repr_bytes rt response_line)])
      | Inr (Inr response) \<Rightarrow>
          (case has_error response of
             Inl e \<Rightarrow> (Inl e, [])
           | Inr True \<Rightarrow>
               (case getitem response ''error'' of
                  Inl e \<Rightarrow> (Inl e, [])
                | Inr err \<Rightarrow> (Inl (RuntimeError (''Server error: '' @ py_str rt err)), []))
           | Inr False \<Rightarrow> (Inr response, [])))"

definition send_request :: "py_runtime \<Rightarrow> world \<Rightarrow> addr \<Rightarrow> json \<Rightarrow> (exn + json) \<times> world" where
  "send_request rt w self request =
     (case process (clients w self) of
        None \<Rightarrow> (Inl (RuntimeError ''Server not started''), w)
      | Some p \<Rightarrow>
          (case encode_line rt request of
             Inl e \<Rightarrow> (Inl e, w)
           | Inr request_json \<Rightarrow>
               (case exchange p request_json of
                  (Inl e, p') \<Rightarrow> (Inl e, set_process w self p')
                | (Inr response_line, p') \<Rightarrow>
                    (if response_line = [] then
                       (Inl (RuntimeError ''Server closed connection''), set_process w self p')
                     else (case response_of rt response_line of
                        (outcome, records) \<Rightarrow>
                          (outcome, (set_process w self p')\<lparr>logged := logged w @ records\<rparr>))))))"

definition send_notification :: "py_runtime \<Rightarrow> world \<Rightarrow> addr \<Rightarrow> json \<Rightarrow> (exn + unit) \<times> world" where
  "send_notification rt w self notification =
     (case process (clients w self) of
        None \<Rightarrow> (Inl (RuntimeError ''Server not started''), w)
      | Some p \<Rightarrow>
          (case encode_line rt notification of
             Inl e \<Rightarrow> (Inl e, w)
           | Inr notification_json \<Rightarrow>
               (case drain (p\<lparr>stdin := stdin p @ [notification_json]\<rparr>) of
                  (Some e, p') \<Rightarrow> (Inl e, set_process w self p')
                | (None, p') \<Rightarrow> (Inr (), set_process w self p'))))"

definition initialize :: "py_runtime \<Rightarrow> world \<Rightarrow> addr \<Rightarrow> (exn + unit) \<times> world" where
  "initialize rt w self =
     (case get_request_id w self of
        (rid, w1) \<Rightarrow>
          (case send_request rt w1 self (initialize_request rid) of
             (Inl e, w2) \<Rightarrow> (Inl e, w2)
           | (Inr response, w2) \<Rightarrow>
               send_notification rt (log_record w2 INFO ''MCP client initialized'') self
                 initialized_notification))"

definition list_tools :: "py_runtime \<Rightarrow> world \<Rightarrow> addr \<Rightarrow> (exn + json) \<times> world" where
  "list_tools rt w self =
     (case get_request_id w self of
        (rid, w1) \<Rightarrow>
          (case send_request rt w1 self (list_tools_request rid) of
             (Inl e, w2) \<Rightarrow> (Inl e, w2)
           | (Inr response, w2) \<Rightarrow>
               (sbind (py_get response ''result'' (JObj [])) (\<lambda>r. py_get r ''tools'' (JArr [])), w2)))"

definition call_tool ::
  "py_runtime \<Rightarrow> world \<Rightarrow> addr \<Rightarrow> string \<Rightarrow> (string \<times> json) list \<Rightarrow> (exn + json) \<times> world" where
  "call_tool rt w self tool_name arguments =
     (case get_request_id w self of
        (rid, w1) \<Rightarrow>
          (case send_request rt w1 self (call_tool_request rid tool_name arguments) of
             (Inl e, w2) \<Rightarrow> (Inl e, w2)
           | (Inr response, w2) \<Rightarrow> (py_get response ''result'' JNull, w2)))"

text \<open>\<open>start_server\<close>, given what spawning the child gave: an exception or the new process.\<close>

definition start_server :: "py_runtime \<Rightarrow> world \<Rightarrow> addr \<Rightarrow> exn + process \<Rightarrow> (exn + unit) \<times> world" where
  "start_server rt w self spawned =
     (case spawned of
        Inl e \<Rightarrow> (Inl e, log_record w ERROR (''Failed to start server: '' @ str_exn rt e))
      | Inr p \<Rightarrow>
          (case initialize rt
                  (log_record (set_process w self p) INFO
                     (''Started MCP server: '' @ server_path (clients w self))) self of
             (Inl e, w') \<Rightarrow> (Inl e, log_record w' ERROR (''Failed to start server: '' @ str_exn rt e))
           | (Inr u, w') \<Rightarrow> (Inr (), w')))"

subsection \<open>Sessions\<close>

text \<open>The three operations that send a Request, and the Request each builds from the id it
  draws. \<open>exec\<close> is the world after an operation on the client at an address, whatever the
  outcome. A session is any sequence of operations on any clients; \<open>session\<close> lists, for each
  operation in turn, the client, the id it draws from \<open>get_request_id\<close> and the Request built
  with it.\<close>

datatype op = Initialize | ListTools | CallTool string "(string \<times> json) list"

fun request_of :: "op \<Rightarrow> int \<Rightarrow> json" where
  "request_of Initialize rid = initialize_request rid"
| "request_of ListTools rid = list_tools_request rid"
| "request_of (CallTool tool_name arguments) rid = call_tool_request rid tool_name arguments"

fun exec :: "py_runtime \<Rightarrow> world \<Rightarrow> addr \<Rightarrow> op \<Rightarrow> world" where
  "exec rt w self Initialize = snd (initialize rt w self)"
| "exec rt w self ListTools = snd (list_tools rt w self)"
| "exec rt w self (CallTool tool_name arguments) = snd (call_tool rt w self tool_name arguments)"

fun session :: "py_runtime \<Rightarrow> (addr \<times> op) list \<Rightarrow> world \<Rightarrow> (addr \<times> int \<times> json) list" where
  "session rt [] w = []"
| "session rt ((self, x) # xs) w =
     (self, fst (get_request_id w self), request_of x (fst (get_request_id w self)))
       # session rt xs (exec rt w self x)"

definition drawn_by :: "addr \<Rightarrow> (addr \<times> int \<times> json) list \<Rightarrow> int list" where
  "drawn_by self events = map (\<lambda>e. fst (snd e)) (filter (\<lambda>e. fst e = self) events)"

definition built_by :: "addr \<Rightarrow> (addr \<times> int \<times> json) list \<Rightarrow> json list" where
  "built_by self events = map (\<lambda>e. snd (snd e)) (filter (\<lambda>e. fst e = self) events)"

section \<open>A sample runtime, upstream and server output for the worked examples\<close>

text \<open>\<open>offline\<close> is an upstream that cannot be reached, \<open>geocoder\<close> one that gives the same
  reply to every geocoding request.\<close>

definition offline :: upstream where
  "offline = (\<lambda>req. Failed ''Cannot connect to host'')"

definition geocoder :: "http_reply \<Rightarrow> upstream" where
  "geocoder reply = (\<lambda>req. if url req = GEOCODING_URL then reply else Failed ''Cannot connect to host'')"

definition bangkok :: "(string \<times> json) list" where
  "bangkok = [(''latitude'', JFloat 13.7563), (''longitude'', JFloat 100.5018), (''name'', JStr ''Bangkok'')]"

text \<open>The sample encoder prints as \<open>json.dumps\<close> does the values it can: those without floats
  whose strings are printable ASCII without quote or backslash, nested at most 500 deep.
  A value nested more than 1000 deep makes it raise, as CPython does at its default
  recursion limit; the \<open>TypeError\<close> it gives for the other values is a placeholder.\<close>

definition plain :: "string \<Rightarrow> bool" where
  "plain s = list_all (\<lambda>c. 32 \<le> (of_char c :: nat) \<and> (of_char c :: nat) < 127 \<and>
                              c \<noteq> CHR 0x22 \<and> c \<noteq> CHR 0x5C) s"

definition in_quotes :: "string \<Rightarrow> string" where
  "in_quotes s = [CHR 0x22] @ s @ [CHR 0x22]"

fun print_json :: "json \<Rightarrow> string"
  and print_items :: "json list \<Rightarrow> string"
  and print_members :: "(string \<times> json) list \<Rightarrow> string" where
  "print_json JNull = ''null''"
| "print_json (JBool b) = (if b then ''true'' else ''false'')"
| "print_json (JInt i) = str_int i"
| "print_json (JFloat x) = []"
| "print_json (JStr s) = in_quotes s"
| "print_json (JArr xs) = ''['' @ print_items xs @ '']''"
| "print_json (JObj ms) = ''{'' @ print_members ms @ ''}''"
| "print_items [] = []"
| "print_items (x # xs) = print_json x @ (if xs = [] then [] else '', '' @ print_items xs)"
| "print_members [] = []"
| "print_members (m # ms) =
     in_quotes (fst m) @ '': '' @ print_json (snd m) @ (if ms = [] then [] else '', '' @ print_members ms)"

fun printable :: "json \<Rightarrow> bool"
  and printable_items :: "json list \<Rightarrow> bool"
  and printable_members :: "(string \<times> json) list \<Rightarrow> bool" where
  "printable (JFloat x) = False"
| "printable (JStr s) = plain s"
| "printable (JArr xs) = printable_items xs"
| "printable (JObj ms) = printable_members ms"
| "printable v = True"
| "printable_items [] = True"
| "printable_items (x # xs) = (printable x \<and> printable_items xs)"
| "printable_members [] = True"
| "printable_members (m # ms) = (plain (fst m) \<and> printable (snd m) \<and> printable_members ms)"

fun depth :: "json \<Rightarrow> nat"
  and depth_items :: "json list \<Rightarrow> nat"
  and depth_members :: "(string \<times> json) list \<Rightarrow> nat" where
  "depth (JArr xs) = Suc (depth_items xs)"
| "depth (JObj ms) = Suc (depth_members ms)"
| "depth v = 0"
| "depth_items [] = 0"
| "depth_items (x # xs) = max (depth x) (depth_items xs)"
| "depth_members [] = 0"
| "depth_members (m # ms) = max (depth (snd m)) (depth_members ms)"

definition sample_dumps :: "json \<Rightarrow> exn + string" where
  "sample_dumps v =
     (if 1000 < depth v then Inl (RecursionError ''maximum recursion depth exceeded while encoding a JSON object'')
      else if printable v \<and> depth v \<le> 500 then Inr (print_json v)
      else Inl (TypeError v))"

text \<open>A few JSON texts, the last of some 70 kB, and \<open>sample_texts\<close>, which lists them with
  the values they denote. The sample decoder reads these as \<open>json.loads\<close> does, and rejects
  any other text with the message CPython gives for a text that starts with no JSON token.\<close>

definition list_tools_text :: string where
  \<open>list_tools_text = ''{"jsonrpc": "2.0", "id": 1, "method": "tools/list"}''\<close>

definition call_tool_text :: string where
  \<open>call_tool_text = ''{"jsonrpc": "2.0", "id": 1, "method": "tools/call", "params": {"name": "search_location", "arguments": {"location": "Tokyo"}}}''\<close>

definition bare_text :: string where
  \<open>bare_text = ''{"jsonrpc": "2.0", "id": 1}''\<close>

definition empty_result_text :: string where
  \<open>empty_result_text = ''{"jsonrpc": "2.0", "id": 1, "result": {}}''\<close>

definition error_text :: string where
  \<open>error_text = ''{"jsonrpc": "2.0", "id": 1, "error": {"code": -32601, "message": "Method not found"}}''\<close>

definition long_text :: string where
  \<open>long_text = ''{"jsonrpc": "2.0", "id": 1, "pad": "'' @ replicate 70000 (CHR ''x'') @ ''"}''\<close>

definition sample_texts :: "(string \<times> json) list" where
  "sample_texts =
    [(list_tools_text, list_tools_request 1),
     (call_tool_text, call_tool_request 1 ''search_location'' [(''location'', JStr ''Tokyo'')]),
     (bare_text, JObj [(''jsonrpc'', JStr ''2.0''), (''id'', JInt 1)]),
     (empty_result_text, JObj [(''jsonrpc'', JStr ''2.0''), (''id'', JInt 1), (''result'', JObj [])]),
     (error_text,
        JObj [(''jsonrpc'', JStr ''2.0''), (''id'', JInt 1),
              (''error'', JObj [(''code'', JInt (- 32601)), (''message'', JStr ''Method not found'')])]),
     (long_text,
        JObj [(''jsonrpc'', JStr ''2.0''), (''id'', JInt 1), (''pad'', JStr (replicate 70000 (CHR ''x'')))])]"

definition sample_loads :: "string \<Rightarrow> exn + json" where
  "sample_loads s = (case map_of sample_texts s of
      Some v \<Rightarrow> Inr v
    | None \<Rightarrow> Inl (JSONDecodeError ''Expecting value: line 1 column 1 (char 0)''))"

text \<open>The other parts of the sample runtime are right for the values the examples use and
  placeholders elsewhere.\<close>

definition sample_runtime :: py_runtime where
  "sample_runtime =
     \<lparr>repr_of = (\<lambda>v. if v = JObj [(''code'', JInt (- 32601)), (''message'', JStr ''Method not found'')]
                       then ''{'' @ quote ''code'' @ '': -32601, '' @ quote ''message'' @ '': '' @
                            quote ''Method not found'' @ ''}''
                       else ''<value>''),
      interp_msg = (\<lambda>e. ''<message>''),
      json_dumps = sample_dumps,
      json_loads = sample_loads,
      repr_bytes = (\<lambda>b. if b = ''oops'' @ nl then ''b'' @ quote (''oops'' @ [CHR 0x5C] @ ''n'')
                          else ''b'' @ quote b)\<rparr>"

text \<open>A child that has just been spawned and will print the given bytes; a world whose
  clients at addresses 0 and 1 have both been created and given such a child.\<close>

definition child :: "string \<Rightarrow> process" where
  "child out = \<lparr>stdin = [], drains = [], stdout = out, arrivals = []\<rparr>"

definition nowhere :: world where
  "nowhere = \<lparr>clients = (\<lambda>a. \<lparr>server_path = [], process = None, request_id = 0\<rparr>), logged = []\<rparr>"

definition started :: "string \<Rightarrow> world" where
  "started out =
     set_process
       (set_process (MCPClient_init (MCPClient_init nowhere 0 ''../weather/weather.py'') 1 ''../weather/weather.py'')
          0 (child out))
       1 (child out)"

text \<open>The line \<open>oops\<close>, which is no JSON text.\<close>

definition garbled_line :: string where
  "garbled_line = ''oops'' @ nl"



section \<open>Properties of the tool dispatcher\<close>

text \<open>C6. For a tool name other than the three known ones and any arguments, the dispatcher
  returns normally, with the single text item \<open>Unknown tool: {name}\<close> and without any
  upstream request.\<close>

theorem unknown_tool_text:
  "tool_name \<notin> {''get_current_weather'', ''get_weather_forecast'', ''search_location''} \<Longrightarrow>
   handle_call_tool rt up tool_name arguments =
     ([\<lparr>type = ''text'', text = ''Unknown tool: '' @ tool_name\<rparr>], [])"
  by (simp add: handle_call_tool_def text_item_def)

text \<open>C6 at \<open>bogus_tool\<close> with no arguments.\<close>

theorem unknown_tool_text_witness:
  "''bogus_tool'' \<notin> {''get_current_weather'', ''get_weather_forecast'', ''search_location''} \<and>
   handle_call_tool sample_runtime offline ''bogus_tool'' [] =
     ([\<lparr>type = ''text'', text = ''Unknown tool: bogus_tool''\<rparr>], [])"
  using unknown_tool_text [of "''bogus_tool''" sample_runtime offline "[]"] by simp

text \<open>A missing or empty \<open>location\<close> is falsy.\<close>

lemma falsy_location:
  "map_of arguments ''location'' = None \<or> map_of arguments ''location'' = Some (JStr []) \<Longrightarrow>
   \<not> truthy (dict_get arguments ''location'' JNull)"
  by (auto simp: dict_get_def)

text \<open>C1. For each of the three tools, when the arguments have no \<open>location\<close> key or its
  value is the empty string, the handler returns normally with the single text item
  \<open>Error: Location is required\<close>, and the list of upstream requests made is empty.\<close>

theorem location_required:
  assumes "tool_name \<in> {''get_current_weather'', ''get_weather_forecast'', ''search_location''}"
    and "map_of arguments ''location'' = None \<or> map_of arguments ''location'' = Some (JStr [])"
  shows "handle_call_tool rt up tool_name arguments =
     ([\<lparr>type = ''text'', text = ''Error: Location is required''\<rparr>], [])"
proof -
  have f: "\<not> truthy (dict_get arguments ''location'' JNull)"
    using assms(2) by (rule falsy_location)
  consider "tool_name = ''get_current_weather''" | "tool_name = ''get_weather_forecast''"
    | "tool_name = ''search_location''"
    using assms(1) by blast
  then show ?thesis
  proof cases
    case 1
    then show ?thesis using f by (simp add: handle_call_tool_def Let_def text_item_def)
  next
    case 2
    then show ?thesis using f by (simp add: handle_call_tool_def Let_def text_item_def)
  next
    case 3
    then show ?thesis using f by (simp add: handle_call_tool_def Let_def text_item_def)
  qed
qed

text \<open>C1 at \<open>search_location\<close> with no arguments, and at \<open>get_weather_forecast\<close> with an
  empty location.\<close>

theorem location_required_witness:
  "''search_location'' \<in> {''get_current_weather'', ''get_weather_forecast'', ''search_location''} \<and>
   (map_of [] ''location'' = (None :: json option) \<or> map_of [] ''location'' = Some (JStr [])) \<and>
   handle_call_tool sample_runtime offline ''search_location'' [] =
     ([\<lparr>type = ''text'', text = ''Error: Location is required''\<rparr>], []) \<and>
   map_of [(''location'', JStr []), (''days'', JInt 3)] ''location'' = Some (JStr []) \<and>
   handle_call_tool sample_runtime offline ''get_weather_forecast'' [(''location'', JStr []), (''days'', JInt 3)] =
     ([\<lparr>type = ''text'', text = ''Error: Location is required''\<rparr>], [])"
  using location_required [of "''search_location''" "[]" sample_runtime offline]
    location_required [of "''get_weather_forecast''" "[(''location'', JStr []), (''days'', JInt 3)]"
      sample_runtime offline]
  by simp

text \<open>Whatever the body of a \<open>try\<close> block did, one text item comes out.\<close>

lemma caught_single: "\<exists>t. fst (caught rt what body) = [\<lparr>type = ''text'', text = t\<rparr>]"
  by (cases body; cases "fst body") (auto simp: caught_def text_item_def)

text \<open>C9. For every tool name and every argument mapping the dispatcher returns a list of
  exactly one content item, whose type is \<open>text\<close>.\<close>

theorem one_text_item:
  "\<exists>t. fst (handle_call_tool rt up tool_name arguments) = [\<lparr>type = ''text'', text = t\<rparr>]"
  by (simp add: handle_call_tool_def Let_def caught_single) (simp add: text_item_def)

section \<open>Properties of the weather service and the tool list\<close>

text \<open>C2, as the code has it. For every integer \<open>days\<close> the forecast request carries
  \<open>forecast_days = min(days, 16)\<close>: a value above 16 is sent as 16, a value of at most 16
  is sent as it is, so the value sent lies in 1..16 whenever \<open>days\<close> is at least 1.\<close>

theorem forecast_days_upper_clamp:
  "sent_forecast_days (snd (get_forecast up latitude longitude (JInt days))) = [Some (JInt (min days 16))] \<and>
   (1 \<le> days \<longrightarrow> 1 \<le> min days 16 \<and> min days 16 \<le> 16) \<and>
   (days \<le> 16 \<longrightarrow> min days 16 = days)"
  by (simp add: get_forecast_def forecast_params_def min_16_def fetch_def sent_forecast_days_def)

text \<open>C2 at \<open>days = 30\<close>, which is sent as 16, and at \<open>days = 0\<close>.\<close>

theorem forecast_days_upper_clamp_witness:
  "sent_forecast_days (snd (get_forecast offline (JFloat 13.7563) (JFloat 100.5018) (JInt 30))) = [Some (JInt 16)] \<and>
   (1 \<le> (30 :: int) \<and> 1 \<le> min (30 :: int) 16 \<and> min (30 :: int) 16 \<le> 16) \<and>
   ((0 :: int) \<le> 16 \<and> min (0 :: int) 16 = 0)"
  using forecast_days_upper_clamp [of offline "JFloat 13.7563" "JFloat 100.5018" 30]
    forecast_days_upper_clamp [of offline "JFloat 13.7563" "JFloat 100.5018" 0]
  by simp

text \<open>C2 as stated fails: \<open>days = 0\<close> is sent as 0, not as 1.\<close>

theorem forecast_days_zero_counterexample:
  "sent_forecast_days (snd (get_forecast offline (JFloat 13.7563) (JFloat 100.5018) (JInt 0))) = [Some (JInt 0)] \<and>
   sent_forecast_days (snd (get_forecast offline (JFloat 13.7563) (JFloat 100.5018) (JInt 0)))
     \<noteq> [Some (JInt (max 1 (min 0 16)))]"
  by (simp add: get_forecast_def forecast_params_def min_16_def fetch_def sent_forecast_days_def)

text \<open>C5. When the geocoding reply has status 200 and its first candidate is an object with a
  latitude and a longitude, \<open>get_coordinates\<close> returns these, the candidate's name or else
  the input text, and its country or else the empty string. When the status is not 200, or
  the reply has no candidates, it raises \<open>ValueError\<close> with the text
  \<open>Location '{input}' not found\<close>. Either way exactly one request was made.\<close>

theorem get_coordinates_outcome:
  "(up (geocoding_request (JStr loc)) = Reply 200 (Inr (JObj d)) \<and>
    map_of d ''results'' = Some (JArr (JObj c # cs)) \<and>
    map_of c ''latitude'' = Some lat \<and> map_of c ''longitude'' = Some lon \<longrightarrow>
    get_coordinates rt up (JStr loc) =
      (Inr [(''latitude'', lat), (''longitude'', lon),
            (''name'', dict_get c ''name'' (JStr loc)),
            (''country'', dict_get c ''country'' (JStr []))],
       [geocoding_request (JStr loc)])) \<and>
   ((up (geocoding_request (JStr loc)) = Reply status body \<and> status \<noteq> 200) \<or>
    (up (geocoding_request (JStr loc)) = Reply 200 (Inr (JObj d)) \<and>
     (map_of d ''results'' = None \<or> map_of d ''results'' = Some (JArr []))) \<longrightarrow>
    get_coordinates rt up (JStr loc) =
      (Inl (ValueError (''Location '' @ [CHR 0x27] @ loc @ [CHR 0x27] @ '' not found'')),
       [geocoding_request (JStr loc)]))"
  by (auto simp: get_coordinates_def Let_def py_get_def dict_get_def first_result_def getitem_def
      getidx_def not_found_def quote_def py_str_def)

text \<open>C5 at a reply with one candidate without a country, at status 503, and at a reply without
  \<open>results\<close>.\<close>

theorem get_coordinates_outcome_witness:
  "get_coordinates sample_runtime (geocoder (Reply 200 (Inr (JObj [(''results'', JArr [JObj bangkok])])))) (JStr ''Bangkok, Thailand'') =
      (Inr [(''latitude'', JFloat 13.7563), (''longitude'', JFloat 100.5018),
            (''name'', JStr ''Bangkok''), (''country'', JStr [])],
       [geocoding_request (JStr ''Bangkok, Thailand'')]) \<and>
   get_coordinates sample_runtime (geocoder (Reply 503 (Inl ''Service Unavailable''))) (JStr ''Atlantis'') =
      (Inl (ValueError (''Location '' @ [CHR 0x27] @ ''Atlantis'' @ [CHR 0x27] @ '' not found'')),
       [geocoding_request (JStr ''Atlantis'')]) \<and>
   get_coordinates sample_runtime (geocoder (Reply 200 (Inr (JObj [(''generationtime_ms'', JFloat 0.5)])))) (JStr ''Atlantis'') =
      (Inl (ValueError (''Location '' @ [CHR 0x27] @ ''Atlantis'' @ [CHR 0x27] @ '' not found'')),
       [geocoding_request (JStr ''Atlantis'')])"
  using
    get_coordinates_outcome [where up = "geocoder (Reply 200 (Inr (JObj [(''results'', JArr [JObj bangkok])])))"
      and loc = "''Bangkok, Thailand''" and d = "[(''results'', JArr [JObj bangkok])]" and c = bangkok
      and cs = "[]" and lat = "JFloat 13.7563" and lon = "JFloat 100.5018" and rt = sample_runtime]
    get_coordinates_outcome [where up = "geocoder (Reply 503 (Inl ''Service Unavailable''))"
      and loc = "''Atlantis''" and status = 503 and body = "Inl ''Service Unavailable''"
      and rt = sample_runtime]
    get_coordinates_outcome [where up = "geocoder (Reply 200 (Inr (JObj [(''generationtime_ms'', JFloat 0.5)])))"
      and loc = "''Atlantis''" and d = "[(''generationtime_ms'', JFloat 0.5)]" and rt = sample_runtime]
  by (simp add: geocoder_def geocoding_request_def bangkok_def dict_get_def)

text \<open>C7. \<open>handle_list_tools\<close> takes no argument and reads no state; it lists exactly three tools
  with the names below, each requiring only \<open>location\<close>, a string; only the forecast tool has
  a \<open>days\<close> property, an integer with default 7, minimum 1 and maximum 16.\<close>

theorem list_tools_fixed:
  "length handle_list_tools = 3 \<and>
   map name handle_list_tools = [''get_current_weather'', ''get_weather_forecast'', ''search_location''] \<and>
   map (\<lambda>t. getitem (inputSchema t) ''required'') handle_list_tools =
     [Inr (JArr [JStr ''location'']), Inr (JArr [JStr ''location'']), Inr (JArr [JStr ''location''])] \<and>
   map (\<lambda>t. sbind (getitem (inputSchema t) ''properties'') (\<lambda>p. sbind (getitem p ''location'') (\<lambda>l. getitem l ''type'')))
     handle_list_tools = [Inr (JStr ''string''), Inr (JStr ''string''), Inr (JStr ''string'')] \<and>
   map (\<lambda>t. sbind (getitem (inputSchema t) ''properties'') (\<lambda>p. py_get p ''days'' JNull)) handle_list_tools =
     [Inr JNull,
      Inr (JObj [(''type'', JStr ''integer''), (''description'', JStr ''Number of forecast days (1-16)''),
                 (''default'', JInt 7), (''minimum'', JInt 1), (''maximum'', JInt 16)]),
      Inr JNull]"
  by (simp add: handle_list_tools_def getitem_def py_get_def dict_get_def location_schema_def)

section \<open>Properties of the client\<close>

subsection \<open>Stripping a line that holds a JSON object\<close>

text \<open>ASCII bytes decode; a text in braces loses exactly its newline to \<open>strip()\<close>, none of
  the whitespace sequences beginning with an opening or ending with a closing brace.\<close>

lemma ascii_utf8_ok: "\<forall>ch \<in> set s. (of_char ch :: nat) < 128 \<Longrightarrow> utf8_ok s"
  by (induction s) (auto simp: byte_in_def)

lemma ws_heads: "w \<in> set ws_seqs \<Longrightarrow> w \<noteq> [] \<and> hd w \<noteq> CHR ''{'' \<and> last w \<noteq> CHR ''}''"
  by (auto simp: ws_seqs_def)

lemma ws_newline: "find (\<lambda>w. suffix w (s @ [CHR 0x0A])) ws_seqs = Some [CHR 0x0A]"
  by (simp add: ws_seqs_def suffix_to_prefix)

lemma lstrip_brace: "lstrip (CHR ''{'' # t) = CHR ''{'' # t"
proof -
  have "\<not> prefix w (CHR ''{'' # t)" if "w \<in> set ws_seqs" for w
  proof
    assume p: "prefix w (CHR ''{'' # t)"
    from ws_heads [OF that] have "w \<noteq> []" and "hd w \<noteq> CHR ''{''" by simp_all
    with p show False by (cases w) auto
  qed
  then have "find (\<lambda>w. prefix w (CHR ''{'' # t)) ws_seqs = None"
    unfolding find_None_iff by blast
  then show ?thesis by (simp add: lstrip.simps)
qed

lemma rstrip_brace: "rstrip (t @ [CHR ''}'']) = t @ [CHR ''}'']"
proof -
  have "\<not> suffix w (t @ [CHR ''}''])" if "w \<in> set ws_seqs" for w
  proof
    assume "suffix w (t @ [CHR ''}''])"
    then obtain zs where "t @ [CHR ''}''] = zs @ w" by (auto simp: suffix_def)
    moreover from ws_heads [OF that] have "w \<noteq> []" and "last w \<noteq> CHR ''}''" by simp_all
    ultimately show False by (metis last_appendR last_snoc)
  qed
  then have "find (\<lambda>w. suffix w (t @ [CHR ''}''])) ws_seqs = None"
    unfolding find_None_iff by blast
  then show ?thesis by (simp add: rstrip.simps)
qed

lemma rstrip_newline: "rstrip (s @ [CHR 0x0A]) = rstrip s"
  by (subst rstrip.simps) (simp only: ws_newline option.case length_append list.size, simp)

lemma strip_braced_line:
  "strip ((CHR ''{'' # body @ [CHR ''}'']) @ nl) = CHR ''{'' # body @ [CHR ''}'']"
proof -
  have "lstrip ((CHR ''{'' # body @ [CHR ''}'']) @ nl) = (CHR ''{'' # body @ [CHR ''}'']) @ [CHR 0x0A]"
    using lstrip_brace [of "body @ [CHR ''}''] @ [CHR 0x0A]"] by (simp add: nl_def)
  moreover have "rstrip ((CHR ''{'' # body @ [CHR ''}'']) @ [CHR 0x0A]) = rstrip (CHR ''{'' # body @ [CHR ''}''])"
    by (rule rstrip_newline)
  moreover have "rstrip (CHR ''{'' # body @ [CHR ''}'']) = CHR ''{'' # body @ [CHR ''}'']"
    using rstrip_brace [of "CHR ''{'' # body"] by simp
  ultimately show ?thesis
    by (simp only: strip_def)
qed

lemma strip_object_line:
  assumes "s \<noteq> []" and "hd s = CHR ''{''" and "last s = CHR ''}''"
  shows "strip (s @ [CHR 0x0A]) = s"
proof -
  from assms(1,2) obtain t where t: "s = CHR ''{'' # t" by (cases s) auto
  with assms(3) have "t \<noteq> []" by auto
  with t assms(3) have "s = CHR ''{'' # butlast t @ [CHR ''}'']"
    by (metis append_butlast_last_id last_ConsR)
  then show ?thesis
    using strip_braced_line [of "butlast t"] by (simp add: nl_def)
qed

subsection \<open>Reading and writing\<close>

text \<open>What \<open>readline\<close> returns for a line within the limit, at the end of the output and for
  a line beyond the limit; what \<open>drain\<close>, \<open>readline\<close> and the exchange leave in the pipes.\<close>

lemma line_body_newline: "CHR 0x0A \<notin> set body \<Longrightarrow> line_body (body @ CHR 0x0A # rest) = body"
  unfolding line_body_def by (induction body) auto

lemma after_body_newline:
  "CHR 0x0A \<notin> set body \<Longrightarrow>
   dropWhile (\<lambda>c. c \<noteq> CHR 0x0A) (body @ CHR 0x0A # rest) = CHR 0x0A # rest"
  by (induction body) auto

lemma split_line_newline:
  "CHR 0x0A \<notin> set body \<Longrightarrow> split_line (body @ CHR 0x0A # rest) = (body @ [CHR 0x0A], rest)"
  by (simp add: split_line_def line_body_newline after_body_newline)

lemma readline_line:
  assumes "stdout p = body @ CHR 0x0A # rest" and "CHR 0x0A \<notin> set body"
    and "length body \<le> DEFAULT_LIMIT"
  shows "readline p = (Inr (body @ [CHR 0x0A]), p\<lparr>stdout := rest\<rparr>)"
  using assms by (simp add: readline_def Let_def line_body_newline split_line_newline)

lemma readline_end: "stdout p = [] \<Longrightarrow> readline p = (Inr [], p)"
  by (simp add: readline_def Let_def line_body_def split_line_def DEFAULT_LIMIT_def)

lemma readline_overrun:
  assumes "stdout p = body @ CHR 0x0A # rest" and "CHR 0x0A \<notin> set body"
    and "DEFAULT_LIMIT < length body" and "arrivals p = []"
  shows "fst (readline p) = Inl (ValueError ''Separator is found, but chunk is longer than limit'')"
  using assms
  by (simp add: readline_def Let_def line_body_newline after_body_newline DEFAULT_LIMIT_def)

lemma readline_stdin: "stdin (snd (readline p)) = stdin p"
  by (auto simp: readline_def Let_def split: list.splits prod.splits)

lemma drain_stdin: "stdin (snd (drain p)) = stdin p"
  by (simp add: drain_def split: list.splits)

lemma drain_stdout: "stdout (snd (drain p)) = stdout p \<and> arrivals (snd (drain p)) = arrivals p"
  by (simp add: drain_def split: list.splits)

lemma exchange_stdin: "stdin (snd (exchange p data)) = stdin p @ [data]"
proof (cases "drain (p\<lparr>stdin := stdin p @ [data]\<rparr>)")
  case (Pair d p')
  then have "stdin p' = stdin p @ [data]"
    using drain_stdin [of "p\<lparr>stdin := stdin p @ [data]\<rparr>"] by simp
  with Pair show ?thesis
    by (cases d) (simp_all add: exchange_def readline_stdin)
qed

lemma drain_written:
  "drain (p\<lparr>stdin := chunks\<rparr>) = (fst (drain p), (snd (drain p))\<lparr>stdin := chunks\<rparr>)"
  by (simp add: drain_def split: list.splits)

lemma exchange_line:
  assumes "fst (drain p) = None" and "stdout p = body @ CHR 0x0A # rest"
    and "CHR 0x0A \<notin> set body" and "length body \<le> DEFAULT_LIMIT"
  shows "fst (exchange p data) = Inr (body @ [CHR 0x0A])"
proof -
  let ?q = "(snd (drain p))\<lparr>stdin := stdin p @ [data]\<rparr>"
  have "stdout ?q = body @ CHR 0x0A # rest"
    using assms(2) drain_stdout [of p] by simp
  then have "readline ?q = (Inr (body @ [CHR 0x0A]), ?q\<lparr>stdout := rest\<rparr>)"
    using assms(3,4) by (rule readline_line)
  then show ?thesis
    using assms(1) by (simp add: exchange_def drain_written)
qed

lemma exchange_end:
  assumes "fst (drain p) = None" and "stdout p = []"
  shows "fst (exchange p data) = Inr []"
proof -
  let ?q = "(snd (drain p))\<lparr>stdin := stdin p @ [data]\<rparr>"
  have "stdout ?q = []"
    using assms(2) drain_stdout [of p] by simp
  then have "readline ?q = (Inr [], ?q)"
    by (rule readline_end)
  then show ?thesis
    using assms(1) by (simp add: exchange_def drain_written)
qed

lemma exchange_overrun:
  assumes "fst (drain p) = None" and "stdout p = body @ CHR 0x0A # rest"
    and "CHR 0x0A \<notin> set body" and "DEFAULT_LIMIT < length body" and "arrivals p = []"
  shows "fst (exchange p data) = Inl (ValueError ''Separator is found, but chunk is longer than limit'')"
proof -
  let ?q = "(snd (drain p))\<lparr>stdin := stdin p @ [data]\<rparr>"
  have "stdout ?q = body @ CHR 0x0A # rest" and "arrivals ?q = []"
    using assms(2,5) drain_stdout [of p] by simp_all
  then have "fst (readline ?q) = Inl (ValueError ''Separator is found, but chunk is longer than limit'')"
    using assms(3,4) by (intro readline_overrun) auto
  then show ?thesis
    using assms(1) by (simp add: exchange_def drain_written)
qed

subsection \<open>\<open>_send_request\<close> and \<open>_send_notification\<close>\<close>

text \<open>The outcome of the \<open>try\<close> block by kind of line, the outcome of \<open>send_request\<close> by
  what was read, and what the two methods leave of the client objects.\<close>

lemma response_of_error:
  assumes "utf8_ok line" and "json_loads rt (strip line) = Inr (JObj d)" and "map_of d ''error'' = Some err"
  shows "response_of rt line = (Inl (RuntimeError (''Server error: '' @ py_str rt err)), [])"
  using assms by (simp add: response_of_def loads_line_def has_error_def getitem_def)

lemma response_of_rejected:
  assumes "utf8_ok line" and "json_loads rt (strip line) = Inl (JSONDecodeError msg)"
  shows "response_of rt line =
    (Inl (RuntimeError (''Invalid server response: '' @ msg)),
     [(ERROR, ''Invalid JSON response: '' @ repr_bytes rt line)])"
  using assms by (simp add: response_of_def loads_line_def)

lemma response_of_plain:
  assumes "utf8_ok line" and "json_loads rt (strip line) = Inr (JObj d)" and "map_of d ''error'' = None"
  shows "response_of rt line = (Inr (JObj d), [])"
  using assms by (simp add: response_of_def loads_line_def has_error_def)

lemma send_request_read:
  assumes "process (clients w self) = Some p" and "json_dumps rt request = Inr encoded"
    and "fst (drain p) = None" and "stdout p = body @ CHR 0x0A # rest"
    and "CHR 0x0A \<notin> set body" and "length body \<le> DEFAULT_LIMIT"
  shows "fst (send_request rt w self request) = fst (response_of rt (body @ [CHR 0x0A])) \<and>
         logged (snd (send_request rt w self request)) =
           logged w @ snd (response_of rt (body @ [CHR 0x0A]))"
proof -
  have "fst (exchange p (encoded @ nl)) = Inr (body @ [CHR 0x0A])"
    using assms(3-6) by (rule exchange_line)
  then obtain p' where "exchange p (encoded @ nl) = (Inr (body @ [CHR 0x0A]), p')"
    by (cases "exchange p (encoded @ nl)") simp
  then show ?thesis
    using assms(1,2)
    by (cases "response_of rt (body @ [CHR 0x0A])")
      (simp add: send_request_def encode_line_def set_process_def)
qed

lemma send_request_end:
  assumes "process (clients w self) = Some p" and "json_dumps rt request = Inr encoded"
    and "fst (drain p) = None" and "stdout p = []"
  shows "fst (send_request rt w self request) = Inl (RuntimeError ''Server closed connection'')"
proof -
  have "fst (exchange p (encoded @ nl)) = Inr []"
    using assms(3,4) by (rule exchange_end)
  then obtain p' where "exchange p (encoded @ nl) = (Inr [], p')"
    by (cases "exchange p (encoded @ nl)") simp
  then show ?thesis
    using assms(1,2) by (simp add: send_request_def encode_line_def)
qed

lemma send_request_overrun:
  assumes "process (clients w self) = Some p" and "json_dumps rt request = Inr encoded"
    and "fst (drain p) = None" and "stdout p = body @ CHR 0x0A # rest"
    and "CHR 0x0A \<notin> set body" and "DEFAULT_LIMIT < length body" and "arrivals p = []"
  shows "fst (send_request rt w self request) =
    Inl (ValueError ''Separator is found, but chunk is longer than limit'')"
proof -
  have "fst (exchange p (encoded @ nl)) =
      Inl (ValueError ''Separator is found, but chunk is longer than limit'')"
    using assms(3-7) by (rule exchange_overrun)
  then obtain p' where "exchange p (encoded @ nl) =
      (Inl (ValueError ''Separator is found, but chunk is longer than limit''), p')"
    by (cases "exchange p (encoded @ nl)") simp
  then show ?thesis
    using assms(1,2) by (simp add: send_request_def encode_line_def)
qed

lemma send_request_frame:
  "other \<noteq> self \<Longrightarrow> clients (snd (send_request rt w self request)) other = clients w other"
  by (auto simp: send_request_def set_process_def split: option.splits sum.splits prod.splits)

lemma send_request_counter:
  "request_id (clients (snd (send_request rt w self request)) self) = request_id (clients w self)"
  by (auto simp: send_request_def set_process_def split: option.splits sum.splits prod.splits)

lemma send_notification_frame:
  "other \<noteq> self \<Longrightarrow> clients (snd (send_notification rt w self notification)) other = clients w other"
  by (auto simp: send_notification_def set_process_def split: option.splits sum.splits prod.splits)

lemma send_notification_counter:
  "request_id (clients (snd (send_notification rt w self notification)) self) = request_id (clients w self)"
  by (auto simp: send_notification_def set_process_def split: option.splits sum.splits prod.splits)

lemma send_request_written:
  assumes "process (clients w self) = Some p" and "json_dumps rt request = Inr encoded"
  shows "\<exists>q. process (clients (snd (send_request rt w self request)) self) = Some q \<and>
             stdin q = stdin p @ [encoded @ nl]"
proof -
  obtain r p' where e: "exchange p (encoded @ nl) = (r, p')"
    by (cases "exchange p (encoded @ nl)")
  then have "stdin p' = stdin p @ [encoded @ nl]"
    using exchange_stdin [of p "encoded @ nl"] by simp
  moreover have "process (clients (snd (send_request rt w self request)) self) = Some p'"
    using assms e
    by (cases r) (auto simp: send_request_def encode_line_def set_process_def split: prod.splits)
  ultimately show ?thesis by simp
qed

lemma send_notification_written:
  assumes "process (clients w self) = Some p"
  shows "\<exists>q chunks. process (clients (snd (send_notification rt w self notification)) self) = Some q \<and>
             stdin q = stdin p @ chunks"
proof (cases "encode_line rt notification")
  case (Inl e)
  with assms show ?thesis by (simp add: send_notification_def)
next
  case (Inr data)
  obtain d p' where dp: "drain (p\<lparr>stdin := stdin p @ [data]\<rparr>) = (d, p')"
    by (cases "drain (p\<lparr>stdin := stdin p @ [data]\<rparr>)")
  then have "stdin p' = stdin p @ [data]"
    using drain_stdin [of "p\<lparr>stdin := stdin p @ [data]\<rparr>"] by simp
  moreover have "process (clients (snd (send_notification rt w self notification)) self) = Some p'"
    using assms Inr dp by (cases d) (simp_all add: send_notification_def set_process_def)
  ultimately show ?thesis by blast
qed

subsection \<open>The operations and the counter\<close>

lemma log_record_clients: "clients (log_record w lv msg) = clients w"
  by (simp add: log_record_def)

lemma exec_frame:
  assumes "other \<noteq> self"
  shows "clients (exec rt w self x) other = clients w other"
proof -
  let ?w1 = "w\<lparr>clients := (clients w)(self := (clients w self)\<lparr>request_id := request_id (clients w self) + 1\<rparr>)\<rparr>"
  have s: "clients (snd (send_request rt ?w1 self request)) other = clients w other" for request
    using send_request_frame [OF assms, of rt ?w1 request] assms by simp
  show ?thesis
  proof (cases x)
    case Initialize
    show ?thesis
    proof (cases "send_request rt ?w1 self (initialize_request (request_id (clients w self) + 1))")
      case (Pair r w2)
      with s [of "initialize_request (request_id (clients w self) + 1)"]
      have "clients w2 other = clients w other" by simp
      with Pair Initialize assms show ?thesis
        by (cases r)
          (simp_all add: initialize_def get_request_id_def send_notification_frame log_record_clients)
    qed
  next
    case ListTools
    with s [of "list_tools_request (request_id (clients w self) + 1)"] show ?thesis
      by (cases "send_request rt ?w1 self (list_tools_request (request_id (clients w self) + 1))")
        (auto simp: list_tools_def get_request_id_def split: sum.splits)
  next
    case (CallTool n a)
    with s [of "call_tool_request (request_id (clients w self) + 1) n a"] show ?thesis
      by (cases "send_request rt ?w1 self (call_tool_request (request_id (clients w self) + 1) n a)")
        (auto simp: call_tool_def get_request_id_def split: sum.splits)
  qed
qed

lemma exec_counter:
  "request_id (clients (exec rt w self x) self) = request_id (clients w self) + 1"
proof -
  let ?w1 = "w\<lparr>clients := (clients w)(self := (clients w self)\<lparr>request_id := request_id (clients w self) + 1\<rparr>)\<rparr>"
  have s: "request_id (clients (snd (send_request rt ?w1 self request)) self) = request_id (clients w self) + 1"
    for request
    using send_request_counter [of rt ?w1 self request] by simp
  show ?thesis
  proof (cases x)
    case Initialize
    show ?thesis
    proof (cases "send_request rt ?w1 self (initialize_request (request_id (clients w self) + 1))")
      case (Pair r w2)
      with s [of "initialize_request (request_id (clients w self) + 1)"]
      have "request_id (clients w2 self) = request_id (clients w self) + 1" by simp
      with Pair Initialize show ?thesis
        by (cases r)
          (simp_all add: initialize_def get_request_id_def send_notification_counter log_record_clients)
    qed
  next
    case ListTools
    with s [of "list_tools_request (request_id (clients w self) + 1)"] show ?thesis
      by (cases "send_request rt ?w1 self (list_tools_request (request_id (clients w self) + 1))")
        (auto simp: list_tools_def get_request_id_def split: sum.splits)
  next
    case (CallTool n a)
    with s [of "call_tool_request (request_id (clients w self) + 1) n a"] show ?thesis
      by (cases "send_request rt ?w1 self (call_tool_request (request_id (clients w self) + 1) n a)")
        (auto simp: call_tool_def get_request_id_def split: sum.splits)
  qed
qed

lemma exec_written:
  assumes "process (clients w self) = Some p"
    and "json_dumps rt (request_of x (request_id (clients w self) + 1)) = Inr encoded"
  shows "\<exists>q chunks. process (clients (exec rt w self x) self) = Some q \<and>
           stdin q = stdin p @ (encoded @ nl) # chunks"
proof -
  let ?n = "request_id (clients w self) + 1"
  let ?w1 = "w\<lparr>clients := (clients w)(self := (clients w self)\<lparr>request_id := ?n\<rparr>)\<rparr>"
  have p1: "process (clients ?w1 self) = Some p" using assms(1) by simp
  obtain r w2 where sr: "send_request rt ?w1 self (request_of x ?n) = (r, w2)"
    by (cases "send_request rt ?w1 self (request_of x ?n)")
  from send_request_written [OF p1 assms(2)] sr
  obtain q where q: "process (clients w2 self) = Some q" "stdin q = stdin p @ [encoded @ nl]"
    by auto
  show ?thesis
  proof (cases x)
    case Initialize
    show ?thesis
    proof (cases r)
      case (Inl e)
      with Initialize sr q show ?thesis
        by (simp add: initialize_def get_request_id_def)
    next
      case (Inr response)
      let ?w3 = "log_record w2 INFO ''MCP client initialized''"
      have "process (clients ?w3 self) = Some q" using q(1) by (simp add: log_record_clients)
      from send_notification_written [OF this, of rt initialized_notification]
      obtain q' chunks where "process (clients (snd (send_notification rt ?w3 self initialized_notification)) self) = Some q'"
        "stdin q' = stdin q @ chunks" by blast
      with Inr Initialize sr q(2) show ?thesis
        by (simp add: initialize_def get_request_id_def)
    qed
  next
    case ListTools
    with sr q show ?thesis
      by (cases r) (simp_all add: list_tools_def get_request_id_def)
  next
    case (CallTool n a)
    with sr q show ?thesis
      by (cases r) (simp_all add: call_tool_def get_request_id_def)
  qed
qed

lemma request_of_id: "getitem (request_of x rid) ''id'' = Inr (JInt rid)"
  by (cases x)
    (simp_all add: getitem_def initialize_request_def list_tools_request_def call_tool_request_def)

lemma upt_shift: "[1 ..< Suc n] = map Suc [0 ..< n]"
  by (simp only: map_Suc_upt One_nat_def)

lemma upt_head: "[0 ..< Suc n] = 0 # map Suc [0 ..< n]"
  by (simp only: map_Suc_upt upt_conv_Cons [OF zero_less_Suc])

lemma drawn_by_session:
  "drawn_by a (session rt xs w) =
     map (\<lambda>k. request_id (clients w a) + 1 + int k) [0 ..< length (filter (\<lambda>e. fst e = a) xs)]"
proof (induction xs arbitrary: w)
  case Nil
  then show ?case by (simp add: drawn_by_def)
next
  case (Cons e xs)
  obtain b y where e: "e = (b, y)" by (cases e)
  let ?w' = "exec rt w b y"
  let ?m = "length (filter (\<lambda>e. fst e = a) xs)"
  have ih: "drawn_by a (session rt xs ?w') =
      map (\<lambda>k. request_id (clients ?w' a) + 1 + int k) [0 ..< ?m]"
    by (rule Cons.IH)
  show ?case
  proof (cases "b = a")
    case True
    have c: "request_id (clients ?w' a) = request_id (clients w a) + 1"
      using True exec_counter [of rt w a y] by simp
    have "drawn_by a (session rt (e # xs) w) =
        (request_id (clients w a) + 1) # drawn_by a (session rt xs ?w')"
      using True e by (simp add: drawn_by_def get_request_id_def)
    also have "\<dots> = (request_id (clients w a) + 1) #
        map (\<lambda>k. request_id (clients w a) + 1 + 1 + int k) [0 ..< ?m]"
      by (simp only: ih c)
    also have "\<dots> = map (\<lambda>k. request_id (clients w a) + 1 + int k) (0 # map Suc [0 ..< ?m])"
      by (simp add: o_def add.assoc)
    also have "\<dots> = map (\<lambda>k. request_id (clients w a) + 1 + int k) [0 ..< Suc ?m]"
      by (simp only: upt_head)
    finally show ?thesis
      using True e by simp
  next
    case False
    then have c: "clients ?w' a = clients w a"
      using exec_frame [of a b rt w y] by simp
    have "drawn_by a (session rt (e # xs) w) = drawn_by a (session rt xs ?w')"
      using False e by (simp add: drawn_by_def)
    with ih c False e show ?thesis by simp
  qed
qed

lemma built_by_session:
  "map (\<lambda>r. getitem r ''id'') (built_by a (session rt xs w)) =
     map (\<lambda>i. Inr (JInt i)) (drawn_by a (session rt xs w))"
proof (induction xs arbitrary: w)
  case Nil
  then show ?case by (simp add: drawn_by_def built_by_def)
next
  case (Cons e xs)
  obtain b y where e: "e = (b, y)" by (cases e)
  from Cons.IH [of "exec rt w b y"] e show ?case
    by (simp add: drawn_by_def built_by_def request_of_id)
qed

subsection \<open>The worked examples\<close>

lemma started_clients:
  "clients (started out) 0 = \<lparr>server_path = ''../weather/weather.py'', process = Some (child out), request_id = 0\<rparr>"
  "clients (started out) (Suc 0) = \<lparr>server_path = ''../weather/weather.py'', process = Some (child out), request_id = 0\<rparr>"
  by (simp_all add: started_def set_process_def MCPClient_init_def)

lemma started_logged: "logged (started out) = []"
  by (simp add: started_def set_process_def MCPClient_init_def nowhere_def)

lemma child_ready: "fst (drain (child out)) = None \<and> stdout (child out) = out \<and> arrivals (child out) = []"
  by (simp add: child_def drain_def)

lemma sample_dumps_list_tools: "json_dumps sample_runtime (list_tools_request 1) = Inr list_tools_text"
proof -
  have "sample_dumps (list_tools_request 1) = Inr list_tools_text"
    by code_simp
  then show ?thesis by (simp add: sample_runtime_def)
qed

lemma sample_dumps_call_tool:
  "json_dumps sample_runtime (call_tool_request 1 ''search_location'' [(''location'', JStr ''Tokyo'')]) =
     Inr call_tool_text"
proof -
  have "sample_dumps (call_tool_request 1 ''search_location'' [(''location'', JStr ''Tokyo'')]) =
      Inr call_tool_text"
    by code_simp
  then show ?thesis by (simp add: sample_runtime_def)
qed



lemma bare_text_facts:
  "CHR 0x0A \<notin> set bare_text \<and> length bare_text \<le> DEFAULT_LIMIT \<and> utf8_ok (bare_text @ [CHR 0x0A]) \<and>
   json_loads sample_runtime (strip (bare_text @ [CHR 0x0A])) =
     Inr (JObj [(''jsonrpc'', JStr ''2.0''), (''id'', JInt 1)])"
proof -
  have "strip (bare_text @ [CHR 0x0A]) = bare_text"
    by (rule strip_object_line) (simp_all add: bare_text_def)
  moreover have "utf8_ok (bare_text @ [CHR 0x0A])"
    by (rule ascii_utf8_ok) (simp add: bare_text_def)
  moreover have "json_loads sample_runtime bare_text = Inr (JObj [(''jsonrpc'', JStr ''2.0''), (''id'', JInt 1)])"
    by (simp add: sample_runtime_def sample_loads_def sample_texts_def)
      (simp add: bare_text_def call_tool_text_def list_tools_text_def)
  ultimately show ?thesis
    by (simp add: bare_text_def DEFAULT_LIMIT_def)
qed

lemma empty_result_text_facts:
  "CHR 0x0A \<notin> set empty_result_text \<and> length empty_result_text \<le> DEFAULT_LIMIT \<and>
   utf8_ok (empty_result_text @ [CHR 0x0A]) \<and>
   json_loads sample_runtime (strip (empty_result_text @ [CHR 0x0A])) =
     Inr (JObj [(''jsonrpc'', JStr ''2.0''), (''id'', JInt 1), (''result'', JObj [])])"
proof -
  have "strip (empty_result_text @ [CHR 0x0A]) = empty_result_text"
    by (rule strip_object_line) (simp_all add: empty_result_text_def)
  moreover have "utf8_ok (empty_result_text @ [CHR 0x0A])"
    by (rule ascii_utf8_ok) (simp add: empty_result_text_def)
  moreover have "json_loads sample_runtime empty_result_text =
      Inr (JObj [(''jsonrpc'', JStr ''2.0''), (''id'', JInt 1), (''result'', JObj [])])"
    by (simp add: sample_runtime_def sample_loads_def sample_texts_def)
      (simp add: empty_result_text_def bare_text_def call_tool_text_def list_tools_text_def)
  ultimately show ?thesis
    by (simp add: empty_result_text_def DEFAULT_LIMIT_def)
qed

lemma error_text_facts:
  "CHR 0x0A \<notin> set error_text \<and> length error_text \<le> DEFAULT_LIMIT \<and>
   utf8_ok (error_text @ [CHR 0x0A]) \<and>
   json_loads sample_runtime (strip (error_text @ [CHR 0x0A])) =
     Inr (JObj [(''jsonrpc'', JStr ''2.0''), (''id'', JInt 1),
                (''error'', JObj [(''code'', JInt (- 32601)), (''message'', JStr ''Method not found'')])])"
proof -
  have "strip (error_text @ [CHR 0x0A]) = error_text"
    by (rule strip_object_line) (simp_all add: error_text_def)
  moreover have "utf8_ok (error_text @ [CHR 0x0A])"
    by (rule ascii_utf8_ok) (simp add: error_text_def)
  moreover have "json_loads sample_runtime error_text =
      Inr (JObj [(''jsonrpc'', JStr ''2.0''), (''id'', JInt 1),
                (''error'', JObj [(''code'', JInt (- 32601)), (''message'', JStr ''Method not found'')])])"
    by (simp add: sample_runtime_def sample_loads_def sample_texts_def)
      (simp add: error_text_def empty_result_text_def bare_text_def call_tool_text_def list_tools_text_def)
  ultimately show ?thesis
    by (simp add: error_text_def DEFAULT_LIMIT_def)
qed

lemma garbled_facts:
  "CHR 0x0A \<notin> set ''oops'' \<and> length ''oops'' \<le> DEFAULT_LIMIT \<and> utf8_ok (''oops'' @ [CHR 0x0A]) \<and>
   json_loads sample_runtime (strip (''oops'' @ [CHR 0x0A])) =
     Inl (JSONDecodeError ''Expecting value: line 1 column 1 (char 0)'')"
proof -
  have "strip (''oops'' @ [CHR 0x0A]) = ''oops''"
    by code_simp
  moreover have "utf8_ok (''oops'' @ [CHR 0x0A])"
    by (rule ascii_utf8_ok) simp
  moreover have "json_loads sample_runtime ''oops'' =
      Inl (JSONDecodeError ''Expecting value: line 1 column 1 (char 0)'')"
    by (simp add: sample_runtime_def sample_loads_def sample_texts_def)
      (simp add: long_text_def error_text_def empty_result_text_def bare_text_def call_tool_text_def list_tools_text_def)
  ultimately show ?thesis
    by (simp add: DEFAULT_LIMIT_def)
qed

lemma long_text_facts:
  "CHR 0x0A \<notin> set long_text \<and> DEFAULT_LIMIT < length long_text \<and>
   json_loads sample_runtime (strip (long_text @ [CHR 0x0A])) =
     Inr (JObj [(''jsonrpc'', JStr ''2.0''), (''id'', JInt 1), (''pad'', JStr (replicate 70000 (CHR ''x'')))])"
proof -
  have "strip (long_text @ [CHR 0x0A]) = long_text"
    by (rule strip_object_line) (simp_all add: long_text_def)
  moreover have "json_loads sample_runtime long_text =
      Inr (JObj [(''jsonrpc'', JStr ''2.0''), (''id'', JInt 1), (''pad'', JStr (replicate 70000 (CHR ''x'')))])"
    by (simp add: sample_runtime_def sample_loads_def sample_texts_def)
      (simp add: long_text_def error_text_def empty_result_text_def bare_text_def call_tool_text_def list_tools_text_def)
  ultimately show ?thesis
    by (simp add: long_text_def DEFAULT_LIMIT_def)
qed

subsection \<open>Failures of \<open>_send_request\<close>, request ids, the Request on the wire, absent results\<close>

text \<open>C3, as the code has it. On a client whose server was started, for a request that the
  encoder prints and a pipe that takes the write: when the line read is within the reader's
  limit of 65536 bytes, is UTF-8 and decodes to an object with an \<open>error\<close> member,
  \<open>send_request\<close> raises \<open>RuntimeError\<close> with \<open>Server error: \<close> followed by that member;
  when the server's output has ended, so that the read yields zero bytes, it raises
  \<open>RuntimeError\<close> with \<open>Server closed connection\<close>; when such a line is rejected by the
  decoder with a \<open>JSONDecodeError\<close>, it hands the raw line to the error log and raises
  \<open>RuntimeError\<close> with \<open>Invalid server response: \<close> followed by the decoder's message.\<close>

theorem send_request_failures:
  assumes "process (clients w self) = Some p" and "json_dumps rt request = Inr encoded"
    and "fst (drain p) = None"
  shows "(stdout p = body @ CHR 0x0A # rest \<and> CHR 0x0A \<notin> set body \<and> length body \<le> DEFAULT_LIMIT \<and>
          utf8_ok (body @ [CHR 0x0A]) \<and>
          json_loads rt (strip (body @ [CHR 0x0A])) = Inr (JObj d) \<and> map_of d ''error'' = Some err \<longrightarrow>
            fst (send_request rt w self request) =
              Inl (RuntimeError (''Server error: '' @ py_str rt err))) \<and>
         (stdout p = [] \<longrightarrow>
            fst (send_request rt w self request) = Inl (RuntimeError ''Server closed connection'')) \<and>
         (stdout p = body @ CHR 0x0A # rest \<and> CHR 0x0A \<notin> set body \<and> length body \<le> DEFAULT_LIMIT \<and>
          utf8_ok (body @ [CHR 0x0A]) \<and>
          json_loads rt (strip (body @ [CHR 0x0A])) = Inl (JSONDecodeError msg) \<longrightarrow>
            fst (send_request rt w self request) =
              Inl (RuntimeError (''Invalid server response: '' @ msg)) \<and>
            logged (snd (send_request rt w self request)) =
              logged w @ [(ERROR, ''Invalid JSON response: '' @ repr_bytes rt (body @ [CHR 0x0A]))])"
proof (intro conjI impI)
  assume h: "stdout p = body @ CHR 0x0A # rest \<and> CHR 0x0A \<notin> set body \<and> length body \<le> DEFAULT_LIMIT \<and>
          utf8_ok (body @ [CHR 0x0A]) \<and>
          json_loads rt (strip (body @ [CHR 0x0A])) = Inr (JObj d) \<and> map_of d ''error'' = Some err"
  then have "response_of rt (body @ [CHR 0x0A]) =
      (Inl (RuntimeError (''Server error: '' @ py_str rt err)), [])"
    by (intro response_of_error) auto
  with h show "fst (send_request rt w self request) =
      Inl (RuntimeError (''Server error: '' @ py_str rt err))"
    using send_request_read [OF assms, of body rest] by simp
next
  assume "stdout p = []"
  with assms show "fst (send_request rt w self request) = Inl (RuntimeError ''Server closed connection'')"
    by (rule send_request_end)
next
  assume h: "stdout p = body @ CHR 0x0A # rest \<and> CHR 0x0A \<notin> set body \<and> length body \<le> DEFAULT_LIMIT \<and>
          utf8_ok (body @ [CHR 0x0A]) \<and>
          json_loads rt (strip (body @ [CHR 0x0A])) = Inl (JSONDecodeError msg)"
  then have r: "response_of rt (body @ [CHR 0x0A]) =
      (Inl (RuntimeError (''Invalid server response: '' @ msg)),
       [(ERROR, ''Invalid JSON response: '' @ repr_bytes rt (body @ [CHR 0x0A]))])"
    by (intro response_of_rejected) auto
  with h show "fst (send_request rt w self request) =
      Inl (RuntimeError (''Invalid server response: '' @ msg))"
    using send_request_read [OF assms, of body rest] by simp
  from r h show "logged (snd (send_request rt w self request)) =
      logged w @ [(ERROR, ''Invalid JSON response: '' @ repr_bytes rt (body @ [CHR 0x0A]))]"
    using send_request_read [OF assms, of body rest] by simp
qed

text \<open>C3 at an error Response, at a server that printed nothing, and at the line \<open>oops\<close>.\<close>

theorem send_request_failures_witness:
  "process (clients (started (error_text @ nl)) 0) = Some (child (error_text @ nl)) \<and>
   json_dumps sample_runtime (list_tools_request 1) = Inr list_tools_text \<and>
   fst (drain (child (error_text @ nl))) = None \<and>
   length error_text \<le> DEFAULT_LIMIT \<and>
   fst (send_request sample_runtime (started (error_text @ nl)) 0 (list_tools_request 1)) =
     Inl (RuntimeError (''Server error: '' @
       py_str sample_runtime (JObj [(''code'', JInt (- 32601)), (''message'', JStr ''Method not found'')]))) \<and>
   py_str sample_runtime (JObj [(''code'', JInt (- 32601)), (''message'', JStr ''Method not found'')]) =
     ''{'' @ quote ''code'' @ '': -32601, '' @ quote ''message'' @ '': '' @ quote ''Method not found'' @ ''}'' \<and>
   fst (send_request sample_runtime (started []) 0 (list_tools_request 1)) =
     Inl (RuntimeError ''Server closed connection'') \<and>
   fst (send_request sample_runtime (started garbled_line) 0 (list_tools_request 1)) =
     Inl (RuntimeError (''Invalid server response: '' @ ''Expecting value: line 1 column 1 (char 0)'')) \<and>
   logged (snd (send_request sample_runtime (started garbled_line) 0 (list_tools_request 1))) =
     logged (started garbled_line) @
       [(ERROR, ''Invalid JSON response: '' @ repr_bytes sample_runtime (''oops'' @ [CHR 0x0A]))] \<and>
   logged (started garbled_line) = [] \<and>
   repr_bytes sample_runtime (''oops'' @ [CHR 0x0A]) = ''b'' @ quote (''oops'' @ [CHR 0x5C] @ ''n'')"
proof -
  have p: "process (clients (started out) 0) = Some (child out)" for out
    by (simp add: started_clients)
  have dr: "fst (drain (child out)) = None" for out
    by (simp add: child_ready)
  note a = send_request_failures [OF p sample_dumps_list_tools dr, where out1 = "error_text @ nl"
      and body = error_text and rest = "[]"
      and d = "[(''jsonrpc'', JStr ''2.0''), (''id'', JInt 1),
                (''error'', JObj [(''code'', JInt (- 32601)), (''message'', JStr ''Method not found'')])]"
      and err = "JObj [(''code'', JInt (- 32601)), (''message'', JStr ''Method not found'')]"]
  note b = send_request_failures [OF p sample_dumps_list_tools dr, where out1 = "[]"]
  note c = send_request_failures [OF p sample_dumps_list_tools dr, where out1 = garbled_line
      and body = "''oops''" and rest = "[]" and msg = "''Expecting value: line 1 column 1 (char 0)''"]
  have s1: "stdout (child (error_text @ nl)) = error_text @ CHR 0x0A # []"
    and s2: "stdout (child []) = []"
    and s3: "stdout (child garbled_line) = ''oops'' @ CHR 0x0A # []"
    by (simp_all add: child_def nl_def garbled_line_def)
  have m: "map_of [(''jsonrpc'', JStr ''2.0''), (''id'', JInt 1),
                (''error'', JObj [(''code'', JInt (- 32601)), (''message'', JStr ''Method not found'')])] ''error'' =
      Some (JObj [(''code'', JInt (- 32601)), (''message'', JStr ''Method not found'')])"
    by simp
  have r: "py_str sample_runtime (JObj [(''code'', JInt (- 32601)), (''message'', JStr ''Method not found'')]) =
      ''{'' @ quote ''code'' @ '': -32601, '' @ quote ''message'' @ '': '' @ quote ''Method not found'' @ ''}''"
    by (simp add: py_str_def sample_runtime_def)
  have rb: "repr_bytes sample_runtime (''oops'' @ [CHR 0x0A]) = ''b'' @ quote (''oops'' @ [CHR 0x5C] @ ''n'')"
    by (simp add: sample_runtime_def nl_def)
  have 1: "fst (send_request sample_runtime (started (error_text @ nl)) 0 (list_tools_request 1)) =
     Inl (RuntimeError (''Server error: '' @
       py_str sample_runtime (JObj [(''code'', JInt (- 32601)), (''message'', JStr ''Method not found'')])))"
    using a s1 m error_text_facts by blast
  have 2: "fst (send_request sample_runtime (started []) 0 (list_tools_request 1)) =
     Inl (RuntimeError ''Server closed connection'')"
    using b s2 by blast
  have 3: "fst (send_request sample_runtime (started garbled_line) 0 (list_tools_request 1)) =
     Inl (RuntimeError (''Invalid server response: '' @ ''Expecting value: line 1 column 1 (char 0)'')) \<and>
   logged (snd (send_request sample_runtime (started garbled_line) 0 (list_tools_request 1))) =
     logged (started garbled_line) @
       [(ERROR, ''Invalid JSON response: '' @ repr_bytes sample_runtime (''oops'' @ [CHR 0x0A]))]"
    using c s3 garbled_facts by blast
  from p [of "error_text @ nl"] sample_dumps_list_tools dr [of "error_text @ nl"]
    error_text_facts 1 r 2 3 started_logged [of garbled_line] rb
  show ?thesis by blast
qed

text \<open>C3 as stated fails: for the line \<open>oops\<close> the failure's text is the decoder's message and
  does not contain the line.\<close>

theorem raw_line_not_in_failure_counterexample:
  "fst (send_request sample_runtime (started garbled_line) 0 (list_tools_request 1)) =
     Inl (RuntimeError ''Invalid server response: Expecting value: line 1 column 1 (char 0)'') \<and>
   \<not> is_substr ''oops'' ''Invalid server response: Expecting value: line 1 column 1 (char 0)''"
proof -
  have n: "\<not> is_substr ''oops'' ''Invalid server response: Expecting value: line 1 column 1 (char 0)''"
    by code_simp
  have g: "utf8_ok (''oops'' @ [CHR 0x0A])"
    and l: "json_loads sample_runtime (strip (''oops'' @ [CHR 0x0A])) =
      Inl (JSONDecodeError ''Expecting value: line 1 column 1 (char 0)'')"
    and nn: "CHR 0x0A \<notin> set ''oops''" and le: "length ''oops'' \<le> DEFAULT_LIMIT"
    using garbled_facts by blast+
  have r: "response_of sample_runtime (''oops'' @ [CHR 0x0A]) =
      (Inl (RuntimeError (''Invalid server response: '' @ ''Expecting value: line 1 column 1 (char 0)'')),
       [(ERROR, ''Invalid JSON response: '' @ repr_bytes sample_runtime (''oops'' @ [CHR 0x0A]))])"
    using g l by (rule response_of_rejected)
  have p: "process (clients (started garbled_line) 0) = Some (child garbled_line)"
    by (simp add: started_clients)
  have dr: "fst (drain (child garbled_line)) = None"
    by (simp add: child_ready)
  have s: "stdout (child garbled_line) = ''oops'' @ CHR 0x0A # []"
    by (simp add: child_def nl_def garbled_line_def)
  have "fst (send_request sample_runtime (started garbled_line) 0 (list_tools_request 1)) =
      fst (response_of sample_runtime (''oops'' @ [CHR 0x0A]))"
    using send_request_read [OF p sample_dumps_list_tools dr s nn le] by blast
  also have "\<dots> = Inl (RuntimeError (''Invalid server response: '' @ ''Expecting value: line 1 column 1 (char 0)''))"
    by (simp only: r fst_conv)
  finally have "fst (send_request sample_runtime (started garbled_line) 0 (list_tools_request 1)) =
     Inl (RuntimeError ''Invalid server response: Expecting value: line 1 column 1 (char 0)'')"
    by simp
  with n show ?thesis by blast
qed

text \<open>C4. The counter of a new client is 0. In any session, whatever the servers answer, the
  ids drawn by the operations on a client whose counter is 0 are 1, 2, ..., n in this order,
  and they are the \<open>id\<close> members of the Requests built; from any counter the ids drawn are
  strictly increasing and pairwise distinct. Each of \<open>initialize\<close>, \<open>list_tools\<close> and
  \<open>call_tool\<close> advances the counter of its client by exactly one, writes to a started server
  the line of the Request that carries the new value, and leaves every other client object
  as it was.\<close>

theorem request_ids_sequential:
  "request_id (clients (MCPClient_init w0 self path) self) = 0 \<and>
   (request_id (clients w self) = 0 \<longrightarrow>
      drawn_by self (session rt xs w) =
        map int [1 ..< Suc (length (filter (\<lambda>e. fst e = self) xs))] \<and>
      map (\<lambda>r. getitem r ''id'') (built_by self (session rt xs w)) =
        map (\<lambda>k. Inr (JInt (int k))) [1 ..< Suc (length (filter (\<lambda>e. fst e = self) xs))]) \<and>
   sorted_wrt (<) (drawn_by self (session rt xs w)) \<and>
   distinct (drawn_by self (session rt xs w)) \<and>
   request_id (clients (exec rt w self x) self) = request_id (clients w self) + 1 \<and>
   (process (clients w self) = Some p \<and>
    json_dumps rt (request_of x (request_id (clients w self) + 1)) = Inr encoded \<longrightarrow>
      (\<exists>q chunks. process (clients (exec rt w self x) self) = Some q \<and>
         stdin q = stdin p @ (encoded @ nl) # chunks)) \<and>
   (other \<noteq> self \<longrightarrow> clients (exec rt w self x) other = clients w other)"
proof -
  let ?m = "length (filter (\<lambda>e. fst e = self) xs)"
  let ?ids = "drawn_by self (session rt xs w)"
  have d: "?ids = map (\<lambda>k. request_id (clients w self) + 1 + int k) [0 ..< ?m]"
    by (rule drawn_by_session)
  have zero: "?ids = map int [1 ..< Suc ?m]" if "request_id (clients w self) = 0"
  proof -
    have "map int [1 ..< Suc ?m] = map (\<lambda>k. 1 + int k) [0 ..< ?m]"
      unfolding upt_shift by (simp add: o_def del: upt_Suc)
    with d that show ?thesis by simp
  qed
  have built: "map (\<lambda>r. getitem r ''id'') (built_by self (session rt xs w)) =
      map (\<lambda>k. Inr (JInt (int k))) [1 ..< Suc ?m]" if "request_id (clients w self) = 0"
    using built_by_session [of self rt xs w] zero [OF that] by (simp add: o_def del: upt_Suc)
  have "sorted_wrt (<) (map (\<lambda>k. request_id (clients w self) + 1 + int k) [0 ..< ?m])"
    by (simp add: sorted_wrt_map)
  then have s: "sorted_wrt (<) ?ids" by (simp only: d)
  have "distinct (map (\<lambda>k. request_id (clients w self) + 1 + int k) [0 ..< ?m])"
    by (simp add: distinct_map inj_on_def)
  then have di: "distinct ?ids" by (simp only: d)
  have i: "request_id (clients (MCPClient_init w0 self path) self) = 0"
    by (simp add: MCPClient_init_def)
  show ?thesis
    using i zero built s di exec_counter [of rt w self x] exec_written [of w self p rt x encoded]
      exec_frame [of other self rt w x]
    by blast
qed

text \<open>C4 at a session of five operations on two started clients, taken in turn.\<close>

theorem request_ids_sequential_witness:
  "request_id (clients (started []) 0) = 0 \<and>
   drawn_by 0 (session sample_runtime
      [(0, Initialize), (1, Initialize), (0, ListTools), (1, ListTools),
       (0, CallTool ''search_location'' [(''location'', JStr ''Tokyo'')])] (started [])) = [1, 2, 3] \<and>
   drawn_by 1 (session sample_runtime
      [(0, Initialize), (1, Initialize), (0, ListTools), (1, ListTools),
       (0, CallTool ''search_location'' [(''location'', JStr ''Tokyo'')])] (started [])) = [1, 2] \<and>
   map (\<lambda>r. getitem r ''id'') (built_by 0 (session sample_runtime
      [(0, Initialize), (1, Initialize), (0, ListTools), (1, ListTools),
       (0, CallTool ''search_location'' [(''location'', JStr ''Tokyo'')])] (started []))) =
     [Inr (JInt 1), Inr (JInt 2), Inr (JInt 3)] \<and>
   process (clients (started []) 0) = Some (child []) \<and>
   json_dumps sample_runtime (request_of ListTools (request_id (clients (started []) 0) + 1)) = Inr list_tools_text \<and>
   (\<exists>q chunks. process (clients (exec sample_runtime (started []) 0 ListTools) 0) = Some q \<and>
      stdin q = (list_tools_text @ nl) # chunks) \<and>
   clients (exec sample_runtime (started []) 0 ListTools) 1 = clients (started []) 1"
proof -
  let ?xs = "[(0 :: nat, Initialize), (1, Initialize), (0, ListTools), (1, ListTools),
       (0, CallTool ''search_location'' [(''location'', JStr ''Tokyo'')])]"
  have r0: "request_id (clients (started []) 0) = 0" and r1: "request_id (clients (started []) 1) = 0"
    by (simp_all add: started_clients)
  have p0: "process (clients (started []) 0) = Some (child [])"
    by (simp add: started_clients)
  have e: "json_dumps sample_runtime (request_of ListTools (request_id (clients (started []) 0) + 1)) = Inr list_tools_text"
    using sample_dumps_list_tools r0 by simp
  have n: "(1 :: nat) \<noteq> 0" by simp
  note a = request_ids_sequential [where w = "started []" and self = 0 and rt = sample_runtime
      and xs = ?xs and x = ListTools and p = "child []" and encoded = list_tools_text and other = 1]
  note b = request_ids_sequential [where w = "started []" and self = 1 and rt = sample_runtime
      and xs = ?xs]
  have 1: "drawn_by 0 (session sample_runtime ?xs (started [])) = [1, 2, 3]"
    using a r0 by (simp add: upt_rec)
  have 2: "drawn_by 1 (session sample_runtime ?xs (started [])) = [1, 2]"
    using b r1 by (simp add: upt_rec)
  have 3: "map (\<lambda>r. getitem r ''id'') (built_by 0 (session sample_runtime ?xs (started []))) =
     [Inr (JInt 1), Inr (JInt 2), Inr (JInt 3)]"
    using a r0 by (simp add: upt_rec)
  have 4: "\<exists>q chunks. process (clients (exec sample_runtime (started []) 0 ListTools) 0) = Some q \<and>
      stdin q = (list_tools_text @ nl) # chunks"
    using a p0 e by (simp add: child_def)
  have 5: "clients (exec sample_runtime (started []) 0 ListTools) 1 = clients (started []) 1"
    using a n by blast
  from r0 1 2 3 p0 e 4 5 show ?thesis by blast
qed




text \<open>C10, as the code has it. On a started client whose pipe takes the write, when the line
  read is within the reader's limit of 65536 bytes, is UTF-8 and decodes to an object
  without an \<open>error\<close> member: if the encoder prints the Request and the object has no
  \<open>result\<close> member, \<open>call_tool\<close> returns \<open>None\<close> and \<open>list_tools\<close> returns the empty list;
  \<open>list_tools\<close> also returns the empty list when \<open>result\<close> is an object without \<open>tools\<close>.\<close>

theorem absent_result_is_empty:
  assumes "process (clients w self) = Some p" and "fst (drain p) = None"
    and "stdout p = body @ CHR 0x0A # rest" and "CHR 0x0A \<notin> set body"
    and "length body \<le> DEFAULT_LIMIT" and "utf8_ok (body @ [CHR 0x0A])"
    and "json_loads rt (strip (body @ [CHR 0x0A])) = Inr (JObj d)" and "map_of d ''error'' = None"
  shows "(json_dumps rt (call_tool_request (request_id (clients w self) + 1) tool_name arguments) = Inr encoded \<and>
          map_of d ''result'' = None \<longrightarrow>
            fst (call_tool rt w self tool_name arguments) = Inr JNull) \<and>
         (json_dumps rt (list_tools_request (request_id (clients w self) + 1)) = Inr encoded' \<and>
          map_of d ''result'' = None \<longrightarrow>
            fst (list_tools rt w self) = Inr (JArr [])) \<and>
         (json_dumps rt (list_tools_request (request_id (clients w self) + 1)) = Inr encoded' \<and>
          map_of d ''result'' = Some (JObj r) \<and> map_of r ''tools'' = None \<longrightarrow>
            fst (list_tools rt w self) = Inr (JArr []))"
proof -
  let ?n = "request_id (clients w self) + 1"
  let ?w1 = "w\<lparr>clients := (clients w)(self := (clients w self)\<lparr>request_id := request_id (clients w self) + 1\<rparr>)\<rparr>"
  have g: "get_request_id w self = (?n, ?w1)"
    by (simp add: get_request_id_def)
  have p1: "process (clients ?w1 self) = Some p"
    using assms(1) by simp
  have resp: "response_of rt (body @ [CHR 0x0A]) = (Inr (JObj d), [])"
    using assms(6,7,8) by (rule response_of_plain)
  have sr: "fst (send_request rt ?w1 self request) = Inr (JObj d)"
    if "json_dumps rt request = Inr e" for request e
    using send_request_read [OF p1 that assms(2,3,4,5)] resp by simp
  have ct: "fst (call_tool rt w self tool_name arguments) = py_get (JObj d) ''result'' JNull"
    if "json_dumps rt (call_tool_request ?n tool_name arguments) = Inr encoded"
    using sr [OF that] g
    by (cases "send_request rt ?w1 self (call_tool_request ?n tool_name arguments)")
      (simp add: call_tool_def)
  have lt: "fst (list_tools rt w self) =
      sbind (py_get (JObj d) ''result'' (JObj [])) (\<lambda>r. py_get r ''tools'' (JArr []))"
    if "json_dumps rt (list_tools_request ?n) = Inr encoded'"
    using sr [OF that] g
    by (cases "send_request rt ?w1 self (list_tools_request ?n)")
      (simp add: list_tools_def)
  show ?thesis
    using ct lt by (simp add: py_get_def dict_get_def)
qed

text \<open>C10 at a Response with only \<open>jsonrpc\<close> and \<open>id\<close>, and at one whose \<open>result\<close> is empty.\<close>

theorem absent_result_is_empty_witness:
  "process (clients (started (bare_text @ nl)) 0) = Some (child (bare_text @ nl)) \<and>
   json_loads sample_runtime (strip (bare_text @ [CHR 0x0A])) =
     Inr (JObj [(''jsonrpc'', JStr ''2.0''), (''id'', JInt 1)]) \<and>
   length bare_text \<le> DEFAULT_LIMIT \<and>
   fst (call_tool sample_runtime (started (bare_text @ nl)) 0 ''search_location'' [(''location'', JStr ''Tokyo'')]) =
     Inr JNull \<and>
   fst (list_tools sample_runtime (started (bare_text @ nl)) 0) = Inr (JArr []) \<and>
   json_loads sample_runtime (strip (empty_result_text @ [CHR 0x0A])) =
     Inr (JObj [(''jsonrpc'', JStr ''2.0''), (''id'', JInt 1), (''result'', JObj [])]) \<and>
   fst (list_tools sample_runtime (started (empty_result_text @ nl)) 0) = Inr (JArr [])"
proof -
  have p: "process (clients (started out) 0) = Some (child out)" for out
    by (simp add: started_clients)
  have n: "request_id (clients (started out) 0) + 1 = 1" for out
    by (simp add: started_clients)
  have cr: "fst (drain (child out)) = None" for out
    by (simp add: child_ready)
  have s1: "stdout (child (bare_text @ nl)) = bare_text @ CHR 0x0A # []"
    and s2: "stdout (child (empty_result_text @ nl)) = empty_result_text @ CHR 0x0A # []"
    by (simp_all add: child_def nl_def)
  have b1: "CHR 0x0A \<notin> set bare_text" and b2: "length bare_text \<le> DEFAULT_LIMIT"
    and b3: "utf8_ok (bare_text @ [CHR 0x0A])"
    and b4: "json_loads sample_runtime (strip (bare_text @ [CHR 0x0A])) =
      Inr (JObj [(''jsonrpc'', JStr ''2.0''), (''id'', JInt 1)])"
    using bare_text_facts by blast+
  have e1: "CHR 0x0A \<notin> set empty_result_text" and e2: "length empty_result_text \<le> DEFAULT_LIMIT"
    and e3: "utf8_ok (empty_result_text @ [CHR 0x0A])"
    and e4: "json_loads sample_runtime (strip (empty_result_text @ [CHR 0x0A])) =
      Inr (JObj [(''jsonrpc'', JStr ''2.0''), (''id'', JInt 1), (''result'', JObj [])])"
    using empty_result_text_facts by blast+
  have m1: "map_of [(''jsonrpc'', JStr ''2.0''), (''id'', JInt 1)] ''error'' = None"
    and m2: "map_of [(''jsonrpc'', JStr ''2.0''), (''id'', JInt 1)] ''result'' = None"
    and m3: "map_of [(''jsonrpc'', JStr ''2.0''), (''id'', JInt 1), (''result'', JObj [])] ''error'' = None"
    and m4: "map_of [(''jsonrpc'', JStr ''2.0''), (''id'', JInt 1), (''result'', JObj [])] ''result'' = Some (JObj [])"
    and m5: "map_of ([] :: (string \<times> json) list) ''tools'' = None"
    by simp_all
  have c1: "json_dumps sample_runtime (call_tool_request (request_id (clients (started (bare_text @ nl)) 0) + 1)
      ''search_location'' [(''location'', JStr ''Tokyo'')]) = Inr call_tool_text"
    using sample_dumps_call_tool by (simp only: n)
  have l1: "json_dumps sample_runtime (list_tools_request (request_id (clients (started out) 0) + 1)) = Inr list_tools_text"
    for out
    using sample_dumps_list_tools by (simp only: n)
  note a = absent_result_is_empty [OF p cr s1 b1 b2 b3 b4 m1, where tool_name = "''search_location''"
      and arguments = "[(''location'', JStr ''Tokyo'')]" and encoded' = list_tools_text]
  note b = absent_result_is_empty [OF p cr s2 e1 e2 e3 e4 m3, where r = "[]" and encoded' = list_tools_text]
  have 1: "fst (call_tool sample_runtime (started (bare_text @ nl)) 0 ''search_location'' [(''location'', JStr ''Tokyo'')]) =
     Inr JNull"
    using a c1 m2 by blast
  have 2: "fst (list_tools sample_runtime (started (bare_text @ nl)) 0) = Inr (JArr [])"
    using a l1 m2 by blast
  have 3: "fst (list_tools sample_runtime (started (empty_result_text @ nl)) 0) = Inr (JArr [])"
    using b l1 m4 m5 by blast
  from p [of "bare_text @ nl"] b4 b2 1 2 e4 3 show ?thesis by blast
qed

text \<open>C10 as stated fails: a Response of some 70 kB with neither \<open>error\<close> nor \<open>result\<close> is
  beyond the reader's limit, and \<open>call_tool\<close> raises \<open>ValueError\<close>.\<close>

theorem long_response_counterexample:
  "json_loads sample_runtime (strip (long_text @ [CHR 0x0A])) =
     Inr (JObj [(''jsonrpc'', JStr ''2.0''), (''id'', JInt 1), (''pad'', JStr (replicate 70000 (CHR ''x'')))]) \<and>
   fst (call_tool sample_runtime (started (long_text @ nl)) 0 ''search_location'' [(''location'', JStr ''Tokyo'')]) =
     Inl (ValueError ''Separator is found, but chunk is longer than limit'')"
proof -
  let ?w = "started (long_text @ nl)"
  let ?w1 = "?w\<lparr>clients := (clients ?w)(0 := (clients ?w 0)\<lparr>request_id := request_id (clients ?w 0) + 1\<rparr>)\<rparr>"
  let ?req = "call_tool_request 1 ''search_location'' [(''location'', JStr ''Tokyo'')]"
  have p: "process (clients ?w1 0) = Some (child (long_text @ nl))"
    by (simp add: started_clients)
  have s: "stdout (child (long_text @ nl)) = long_text @ CHR 0x0A # []"
    by (simp add: child_def nl_def)
  have dr: "fst (drain (child (long_text @ nl))) = None" and ar: "arrivals (child (long_text @ nl)) = []"
    by (simp_all add: child_ready)
  have nn: "CHR 0x0A \<notin> set long_text" and lg: "DEFAULT_LIMIT < length long_text"
    and ld: "json_loads sample_runtime (strip (long_text @ [CHR 0x0A])) =
     Inr (JObj [(''jsonrpc'', JStr ''2.0''), (''id'', JInt 1), (''pad'', JStr (replicate 70000 (CHR ''x'')))])"
    using long_text_facts by blast+
  have sr: "fst (send_request sample_runtime ?w1 0 ?req) =
      Inl (ValueError ''Separator is found, but chunk is longer than limit'')"
    using p sample_dumps_call_tool dr s nn lg ar by (rule send_request_overrun)
  have g: "get_request_id ?w 0 = (1, ?w1)"
    by (simp add: get_request_id_def started_clients)
  have "fst (call_tool sample_runtime ?w 0 ''search_location'' [(''location'', JStr ''Tokyo'')]) =
     Inl (ValueError ''Separator is found, but chunk is longer than limit'')"
    using sr g
    by (cases "send_request sample_runtime ?w1 0 ?req") (simp add: call_tool_def)
  with ld show ?thesis by blast
qed

end
